theory Spec2Isabelle
  imports Complex_Main "HOL-Library.Multiset"
begin

section \<open>Python values and built-ins used by check\_rds\_mysql.py\<close>

text \<open>
  The plug-in is a single Python file. Exceptions are values of \<open>py_error\<close>; a function
  that can raise returns \<open>py_error + 'a\<close> with \<open>Inl\<close> for the exception.
  \<open>ClientError\<close> stands for the two boto exceptions the code names
  (\<open>BotoCoreError\<close>, \<open>ClientError\<close>) and carries the text of \<open>str(err)\<close>.
\<close>

datatype py_error =
    ValueError
  | TypeError
  | IndexError
  | AttributeError
  | ZeroDivisionError
  | RuntimeError
  | ClientError string

text \<open>
  Python floats are modelled as exact reals plus the three special values that
  \<open>float()\<close> can return for a string. Rounding to 53 bits is not modelled.
\<close>

datatype pyfloat = Fin real | PInf | NInf | NaN

text \<open>The value \<open>expand_unit\<close> returns is a Python \<open>str\<close> or a Python \<open>int\<close>.\<close>

datatype pyval = PStr string | PInt int

text \<open>The four Nagios states, \<open>STATE_OK = 0\<close> to \<open>STATE_UNKNOWN = 3\<close> (lines 18 to 21).\<close>

datatype state = STATE_OK | STATE_WARN | STATE_CRIT | STATE_UNKNOWN

fun exit_code :: "state \<Rightarrow> nat" where
  "exit_code STATE_OK = 0"
| "exit_code STATE_WARN = 1"
| "exit_code STATE_CRIT = 2"
| "exit_code STATE_UNKNOWN = 3"

subsection \<open>Strings\<close>

text \<open>\<open>s.split(c)\<close> for a separator of one character: never empty, keeps empty fields.\<close>

fun py_split :: "char \<Rightarrow> string \<Rightarrow> string list" where
  "py_split c [] = [[]]"
| "py_split c (x # xs) =
     (if x = c then [] # py_split c xs
      else (case py_split c xs of
              [] \<Rightarrow> [[x]]
            | w # ws \<Rightarrow> (x # w) # ws))"

text \<open>\<open>sep.join(xs)\<close>.\<close>

fun py_join :: "string \<Rightarrow> string list \<Rightarrow> string" where
  "py_join sep [] = []"
| "py_join sep [x] = x"
| "py_join sep (x # y # ys) = x @ sep @ py_join sep (y # ys)"

definition endswith :: "string \<Rightarrow> string \<Rightarrow> bool" where
  "endswith s suf = (take (length suf) (rev s) = rev suf)"

definition startswith :: "string \<Rightarrow> string \<Rightarrow> bool" where
  "startswith s pre = (take (length pre) s = pre)"

text \<open>\<open>s[:-n]\<close>: everything but the last \<open>n\<close> characters (empty when \<open>s\<close> is shorter).\<close>

definition drop_last :: "nat \<Rightarrow> string \<Rightarrow> string" where
  "drop_last n s = take (length s - n) s"

text \<open>
  The white space that \<open>int()\<close> and \<open>float()\<close> skip at both ends of an ASCII string: tab,
  line feed, vertical tab, form feed, carriage return and space. Characters beyond
  ASCII are outside this model (a HOL \<open>char\<close> is a byte).
\<close>

definition is_space :: "char \<Rightarrow> bool" where
  "is_space c = (let n = (of_char c :: nat) in (9 \<le> n \<and> n \<le> 13) \<or> n = 32)"

definition strip :: "string \<Rightarrow> string" where
  "strip s = rev (dropWhile is_space (rev (dropWhile is_space s)))"

definition is_digit :: "char \<Rightarrow> bool" where
  "is_digit c = (let n = (of_char c :: nat) in 48 \<le> n \<and> n \<le> 57)"

definition digit_val :: "char \<Rightarrow> int" where
  "digit_val c = (of_char c :: int) - 48"

text \<open>
  A digit part of Python's numeric grammar, \<open>digit (["_"] digit)*\<close>, read after its
  first digit: single underscores may stand between digits.
\<close>

fun digits_val :: "int \<Rightarrow> string \<Rightarrow> int option" where
  "digits_val acc [] = Some acc"
| "digits_val acc [c] = (if is_digit c then Some (10 * acc + digit_val c) else None)"
| "digits_val acc (c # d # ds) =
     (if is_digit c then digits_val (10 * acc + digit_val c) (d # ds)
      else if c = CHR ''_'' \<and> is_digit d then digits_val (10 * acc + digit_val d) ds
      else None)"

definition digitpart :: "string \<Rightarrow> int option" where
  "digitpart s =
     (case s of
        [] \<Rightarrow> None
      | c # cs \<Rightarrow> if is_digit c then digits_val (digit_val c) cs else None)"

text \<open>\<open>int(s)\<close> for a string, base 10: white space stripped, an optional sign, a digit part.\<close>

definition py_int :: "string \<Rightarrow> py_error + int" where
  "py_int s =
     (case strip s of
        [] \<Rightarrow> Inl ValueError
      | c # cs \<Rightarrow>
          if c = CHR ''-'' then
            (case digitpart cs of None \<Rightarrow> Inl ValueError | Some n \<Rightarrow> Inr (- n))
          else if c = CHR ''+'' then
            (case digitpart cs of None \<Rightarrow> Inl ValueError | Some n \<Rightarrow> Inr n)
          else
            (case digitpart (c # cs) of None \<Rightarrow> Inl ValueError | Some n \<Rightarrow> Inr n))"

text \<open>\<open>str(n)\<close> for an integer: decimal digits, a minus sign when negative.\<close>

function int_digits :: "int \<Rightarrow> string" where
  "int_digits n =
     (if n < 10 then [char_of (48 + n)]
      else int_digits (n div 10) @ [char_of (48 + n mod 10)])"
  by pat_completeness auto
termination
  by (relation "measure nat") auto

definition str_int :: "int \<Rightarrow> string" where
  "str_int i = (if i < 0 then CHR ''-'' # int_digits (- i) else int_digits i)"

text \<open>\<open>str(v)\<close> on what \<open>expand_unit\<close> returns: a string is itself.\<close>

fun py_str :: "pyval \<Rightarrow> string" where
  "py_str (PStr s) = s"
| "py_str (PInt i) = str_int i"

subsection \<open>float() on a string\<close>

text \<open>
  \<open>float(s)\<close> strips white space, takes an optional sign, then \<open>inf\<close>, \<open>infinity\<close> or
  \<open>nan\<close> in any case, or a decimal number \<open>[digitpart] "." digitpart | digitpart ["."]\<close>
  with an optional exponent \<open>("e" | "E") [sign] digitpart\<close>.
\<close>

definition lower_char :: "char \<Rightarrow> char" where
  "lower_char c =
     (let n = (of_char c :: nat) in if 65 \<le> n \<and> n \<le> 90 then char_of (n + 32) else c)"

definition is_e :: "char \<Rightarrow> bool" where
  "is_e c = (c = CHR ''e'' \<or> c = CHR ''E'')"

text \<open>The mantissa as (all digits read as one number, how many of them follow the point).\<close>

definition mantissa :: "string \<Rightarrow> (int \<times> nat) option" where
  "mantissa m =
     (case py_split (CHR ''.'') m of
        [i] \<Rightarrow> map_option (\<lambda>n. (n, 0)) (digitpart i)
      | [i, f] \<Rightarrow>
          if f = [] then map_option (\<lambda>n. (n, 0)) (digitpart i)
          else
            (case digitpart f of
               None \<Rightarrow> None
             | Some fv \<Rightarrow>
                 (let k = length (filter is_digit f) in
                  if i = [] then Some (fv, k)
                  else map_option (\<lambda>iv. (iv * 10 ^ k + fv, k)) (digitpart i)))
      | _ \<Rightarrow> None)"

text \<open>The exponent after the \<open>e\<close>: an optional sign and a digit part.\<close>

definition exponent :: "string \<Rightarrow> int option" where
  "exponent e =
     (case e of
        [] \<Rightarrow> None
      | c # cs \<Rightarrow>
          if c = CHR ''-'' then map_option uminus (digitpart cs)
          else if c = CHR ''+'' then digitpart cs
          else digitpart (c # cs))"

definition scale10 :: "real \<Rightarrow> int \<Rightarrow> real" where
  "scale10 x e = (if 0 \<le> e then x * 10 ^ nat e else x / 10 ^ nat (- e))"

definition abs_float :: "string \<Rightarrow> pyfloat option" where
  "abs_float t =
     (let l = map lower_char t in
      if l = ''inf'' \<or> l = ''infinity'' then Some PInf
      else if l = ''nan'' then Some NaN
      else
        (let m = takeWhile (\<lambda>c. \<not> is_e c) t; r = dropWhile (\<lambda>c. \<not> is_e c) t in
         case mantissa m of
           None \<Rightarrow> None
         | Some (n, k) \<Rightarrow>
             (case r of
                [] \<Rightarrow> Some (Fin (of_int n / 10 ^ k))
              | _ # e \<Rightarrow>
                  (case exponent e of
                     None \<Rightarrow> None
                   | Some x \<Rightarrow> Some (Fin (scale10 (of_int n / 10 ^ k) x))))))"

fun neg_float :: "pyfloat \<Rightarrow> pyfloat" where
  "neg_float (Fin r) = Fin (- r)"
| "neg_float PInf = NInf"
| "neg_float NInf = PInf"
| "neg_float NaN = NaN"

definition py_float :: "string \<Rightarrow> py_error + pyfloat" where
  "py_float s =
     (case strip s of
        [] \<Rightarrow> Inl ValueError
      | c # cs \<Rightarrow>
          if c = CHR ''-'' then
            (case abs_float cs of None \<Rightarrow> Inl ValueError | Some x \<Rightarrow> Inr (neg_float x))
          else if c = CHR ''+'' then
            (case abs_float cs of None \<Rightarrow> Inl ValueError | Some x \<Rightarrow> Inr x)
          else
            (case abs_float (c # cs) of None \<Rightarrow> Inl ValueError | Some x \<Rightarrow> Inr x))"

text \<open>
  The four comparisons of a finite value with a float (lines 215 and 217): every
  comparison with \<open>nan\<close> is false.
\<close>

fun f_lt :: "real \<Rightarrow> pyfloat \<Rightarrow> bool" where
  "f_lt v (Fin r) = (v < r)"
| "f_lt v PInf = True"
| "f_lt v NInf = False"
| "f_lt v NaN = False"

fun f_le :: "real \<Rightarrow> pyfloat \<Rightarrow> bool" where
  "f_le v (Fin r) = (v \<le> r)"
| "f_le v PInf = True"
| "f_le v NInf = False"
| "f_le v NaN = False"

fun f_gt :: "real \<Rightarrow> pyfloat \<Rightarrow> bool" where
  "f_gt v (Fin r) = (v > r)"
| "f_gt v PInf = False"
| "f_gt v NInf = True"
| "f_gt v NaN = False"

fun f_ge :: "real \<Rightarrow> pyfloat \<Rightarrow> bool" where
  "f_ge v (Fin r) = (v \<ge> r)"
| "f_ge v PInf = False"
| "f_ge v NInf = True"
| "f_ge v NaN = False"

section \<open>Unit expansion (lines 303 to 323)\<close>

text \<open>
  The suffix chain of \<open>expand_unit\<close>, in the order of the source: \<open>K\<close>, \<open>Ki\<close>, \<open>M\<close>,
  \<open>Mi\<close>, \<open>G\<close>, \<open>Gi\<close>. A matched suffix is cut off, the rest goes through \<open>int()\<close>
  (which may raise) and the product is returned as an integer. A value with no suffix
  is returned as it is, a string.
\<close>

definition times_unit :: "string \<Rightarrow> int \<Rightarrow> py_error + pyval" where
  "times_unit front factor =
     (case py_int front of Inl e \<Rightarrow> Inl e | Inr n \<Rightarrow> Inr (PInt (n * factor)))"

text \<open>
  The generator expression of line 310, \<open>str(expand_unit(val)) for val in ...\<close>, consumed
  by \<open>join\<close> from left to right: the first exception ends it.
\<close>

fun collect :: "(py_error + 'a) list \<Rightarrow> py_error + 'a list" where
  "collect [] = Inr []"
| "collect (Inl e # rs) = Inl e"
| "collect (Inr s # rs) = (case collect rs of Inl e \<Rightarrow> Inl e | Inr ss \<Rightarrow> Inr (s # ss))"

function expand_unit :: "string \<Rightarrow> py_error + pyval" where
  "expand_unit value =
     (if CHR '':'' \<in> set value then
        (case collect (map (\<lambda>val. map_sum id py_str (expand_unit val))
                         (py_split (CHR '':'') value)) of
           Inl e \<Rightarrow> Inl e
         | Inr ss \<Rightarrow> Inr (PStr (py_join '':'' ss)))
      else if endswith value ''K'' then times_unit (drop_last 1 value) 1000
      else if endswith value ''Ki'' then times_unit (drop_last 2 value) 1024
      else if endswith value ''M'' then times_unit (drop_last 1 value) 1000000
      else if endswith value ''Mi'' then times_unit (drop_last 2 value) 1048576
      else if endswith value ''G'' then times_unit (drop_last 1 value) 1000000000
      else if endswith value ''Gi'' then times_unit (drop_last 2 value) 1073741824
      else Inr (PStr value))"
  by pat_completeness auto
termination
proof (relation "measure (\<lambda>v. if CHR '':'' \<in> set v then 1 else 0)")
  show "wf (measure (\<lambda>v. if CHR '':'' \<in> set v then (1::nat) else 0))" by simp
next
  fix "value" val :: string
  assume c: "CHR '':'' \<in> set value" and v: "val \<in> set (py_split (CHR '':'') value)"
  have "x \<in> set (py_split (CHR '':'') s) \<Longrightarrow> CHR '':'' \<notin> set x" for x s
  proof (induction s arbitrary: x)
    case Nil
    then show ?case by simp
  next
    case (Cons y ys)
    then show ?case
      by (cases "py_split (CHR '':'') ys") (auto split: if_splits)
  qed
  with v have "CHR '':'' \<notin> set val" by blast
  with c show "(val, value) \<in> measure (\<lambda>v. if CHR '':'' \<in> set v then 1 else 0)" by simp
qed

declare expand_unit.simps [simp del]

section \<open>Threshold ranges (lines 193 to 235)\<close>

text \<open>Lines 213 and 214: \<open>None if s == '~' else float(s)\<close>.\<close>

definition parse_bound :: "string \<Rightarrow> py_error + pyfloat option" where
  "parse_bound s =
     (if s = ''~'' then Inr None
      else (case py_float s of Inl e \<Rightarrow> Inl e | Inr x \<Rightarrow> Inr (Some x)))"

text \<open>
  Lines 215 to 220, once both bounds are numbers or \<open>None\<close>: the two rejections of the
  source, in its order.
\<close>

definition in_bounds :: "bool \<Rightarrow> pyfloat option \<Rightarrow> pyfloat option \<Rightarrow> real \<Rightarrow> bool" where
  "in_bounds incl start stop v =
     (if (case start of
            None \<Rightarrow> False
          | Some lo \<Rightarrow> (incl \<and> f_le v lo) \<or> (\<not> incl \<and> f_lt v lo)) then False
      else if (case stop of
                 None \<Rightarrow> False
               | Some hi \<Rightarrow> (incl \<and> f_ge v hi) \<or> (\<not> incl \<and> f_gt v hi)) then False
      else True)"

text \<open>
  \<open>compare_range(value, window)\<close>. The window is whatever the caller passes: a string
  from the command line, or the result of \<open>expand_unit\<close>. \<open>window[0]\<close> raises
  \<open>TypeError\<close> on an integer and \<open>IndexError\<close> on the empty string. Without a colon the
  start is the integer \<open>0\<close>, which \<open>float\<close> turns into \<open>0.0\<close>; with one, the first two
  fields of the split are the bounds and an empty second field stands for \<open>~\<close>.
  \<open>float(start)\<close> runs before \<open>float(stop)\<close>.
\<close>

definition compare_range :: "real \<Rightarrow> pyval \<Rightarrow> py_error + bool" where
  "compare_range v window0 =
     (case window0 of
        PInt n \<Rightarrow> Inl TypeError
      | PStr [] \<Rightarrow> Inl IndexError
      | PStr (c # cs) \<Rightarrow>
          (let incl = (c = CHR ''@'');
               window = (if incl then cs else c # cs)
           in
           if CHR '':'' \<notin> set window then
             (case parse_bound window of
                Inl e \<Rightarrow> Inl e
              | Inr stop \<Rightarrow> Inr (in_bounds incl (Some (Fin 0)) stop v))
           else
             (case py_split (CHR '':'') window of
                b0 # b1 # rest \<Rightarrow>
                  (case parse_bound b0 of
                     Inl e \<Rightarrow> Inl e
                   | Inr start \<Rightarrow>
                       (case parse_bound (if b1 \<noteq> [] then b1 else ''~'') of
                          Inl e \<Rightarrow> Inl e
                        | Inr stop \<Rightarrow> Inr (in_bounds incl start stop v)))
              | _ \<Rightarrow> Inl IndexError)))"

text \<open>\<open>compare(value, warn, crit)\<close>: the critical range first; the warning range is
  looked at only when the value is inside the critical one.\<close>

definition compare :: "real \<Rightarrow> pyval \<Rightarrow> pyval \<Rightarrow> py_error + state" where
  "compare v warn crit =
     (case compare_range v crit of
        Inl e \<Rightarrow> Inl e
      | Inr False \<Rightarrow> Inr STATE_CRIT
      | Inr True \<Rightarrow>
          (case compare_range v warn of
             Inl e \<Rightarrow> Inl e
           | Inr False \<Rightarrow> Inr STATE_WARN
           | Inr True \<Rightarrow> Inr STATE_OK))"

section \<open>The outside world\<close>

text \<open>
  Every call to AWS is an event of a trace, in the order the calls are made; the trace is the
  state the program threads. A computation ends in one of three ways: it returns, it
  raises an exception nobody has caught yet, or it prints a line and leaves through
  \<open>sys.exit\<close> with a state as its exit code.
\<close>

datatype event =
    DescribeDbInstances string
  | DescribeDbParameters string
  | DescribeInstanceTypes string
  | GetStatistics string nat

datatype 'a outcome = Return 'a | Raise py_error | SysExit state string

type_synonym 'a io = "event list \<Rightarrow> 'a outcome \<times> event list"

definition return_io :: "'a \<Rightarrow> 'a io" where
  "return_io a evs = (Return a, evs)"

definition raise_io :: "py_error \<Rightarrow> 'a io" where
  "raise_io e evs = (Raise e, evs)"

definition lift_io :: "py_error + 'a \<Rightarrow> 'a io" where
  "lift_io r evs = (case r of Inl e \<Rightarrow> (Raise e, evs) | Inr a \<Rightarrow> (Return a, evs))"

definition bind_io :: "'a io \<Rightarrow> ('a \<Rightarrow> 'b io) \<Rightarrow> 'b io" where
  "bind_io m f evs =
     (case m evs of
        (Return a, evs') \<Rightarrow> f a evs'
      | (Raise e, evs') \<Rightarrow> (Raise e, evs')
      | (SysExit c t, evs') \<Rightarrow> (SysExit c t, evs'))"

text \<open>A call with no handler around it: the event is logged, an error is raised on.\<close>

definition call :: "event \<Rightarrow> py_error + 'a \<Rightarrow> 'a io" where
  "call ev r evs = (case r of Inl e \<Rightarrow> (Raise e, evs @ [ev]) | Inr a \<Rightarrow> (Return a, evs @ [ev]))"

text \<open>
  What the program reads of the answers of AWS. \<open>db_data\<close> is \<open>DBInstances[0]\<close> of
  \<open>describe_db_instances\<close>; the parameters of a group are a dictionary from
  \<open>ParameterName\<close> to \<open>ParameterValue\<close>; an instance type is its
  \<open>MemoryInfo.SizeInMiB\<close>; the datapoints of a metric, asked with a window shifted by
  \<open>offset\<close> minutes, are the values of the one statistic that was requested. The
  clock and the remaining request fields are not modelled.
\<close>

record db_data =
  DBParameterGroupName :: string
  DBInstanceClass :: string
  AllocatedStorage :: int

record aws =
  rds_describe_db_instances :: "string \<Rightarrow> py_error + db_data"
  rds_describe_db_parameters :: "string \<Rightarrow> py_error + (string \<Rightarrow> string option)"
  ec2_describe_instance_types :: "string \<Rightarrow> py_error + int"
  cw_get_statistics :: "string \<Rightarrow> nat \<Rightarrow> py_error + real list"

section \<open>DbInstance (lines 24 to 86)\<close>

record db_instance =
  data :: db_data
  parameters :: "string \<Rightarrow> string option"
  instance_class :: int

text \<open>Lines 63 to 68: a leading \<open>db.\<close> is cut off the class name before EC2 is asked.\<close>

definition ec2_class_name :: "string \<Rightarrow> string" where
  "ec2_class_name cls =
     (if startswith cls ''db.'' then py_join ''.'' (tl (py_split (CHR ''.'') cls)) else cls)"

text \<open>\<open>__init__\<close>: three calls in a row, none of them inside a \<open>try\<close>.\<close>

definition DbInstance :: "aws \<Rightarrow> string \<Rightarrow> db_instance io" where
  "DbInstance w db_instance_identifier =
     bind_io (call (DescribeDbInstances db_instance_identifier)
                (rds_describe_db_instances w db_instance_identifier)) (\<lambda>d.
     bind_io (call (DescribeDbParameters (DBParameterGroupName d))
                (rds_describe_db_parameters w (DBParameterGroupName d))) (\<lambda>ps.
     bind_io (call (DescribeInstanceTypes (ec2_class_name (DBInstanceClass d)))
                (ec2_describe_instance_types w (ec2_class_name (DBInstanceClass d)))) (\<lambda>cls.
     return_io \<lparr>data = d, parameters = ps, instance_class = cls\<rparr>)))"

definition instance_memory :: "db_instance \<Rightarrow> int" where
  "instance_memory self = instance_class self * 1024 * 1024"

definition storage :: "db_instance \<Rightarrow> int" where
  "storage self = AllocatedStorage (data self) * 1024 * 1024 * 1024"

text \<open>\<open>int(a / b)\<close> for integers, \<open>b\<close> not zero: the quotient cut towards zero.\<close>

definition int_quot :: "int \<Rightarrow> int \<Rightarrow> int" where
  "int_quot a b = sgn a * sgn b * (\<bar>a\<bar> div \<bar>b\<bar>)"

text \<open>
  The property \<open>max_connections\<close> (lines 74 to 82). \<open>parameter\<close> gives \<open>False\<close> for a
  missing key, on which \<open>startswith\<close> raises \<open>AttributeError\<close>; the unpacking into
  \<open>param, divisor\<close> raises \<open>ValueError\<close> unless the split has two fields.
\<close>

definition max_connections :: "db_instance \<Rightarrow> py_error + int" where
  "max_connections self =
     (case parameters self ''max_connections'' of
        None \<Rightarrow> Inl AttributeError
      | Some v \<Rightarrow>
          if startswith v ''{'' then
            (case py_split (CHR ''{'') v of
               a # b # rest \<Rightarrow>
                 (case py_split (CHR ''}'') b of
                    [] \<Rightarrow> Inl IndexError
                  | inner # rest' \<Rightarrow>
                      (case py_split (CHR ''/'') inner of
                         [param, divisor] \<Rightarrow>
                           if param = ''DBInstanceClassMemory'' then
                             (case py_int divisor of
                                Inl e \<Rightarrow> Inl e
                              | Inr k \<Rightarrow>
                                  if k = 0 then Inl ZeroDivisionError
                                  else Inr (int_quot (instance_memory self) k))
                           else Inl RuntimeError
                       | _ \<Rightarrow> Inl ValueError))
             | _ \<Rightarrow> Inl IndexError)
          else py_int v)"

section \<open>Metric (lines 89 to 190)\<close>

record metric =
  dimensions :: string
  last_state :: bool
  minutes :: int
  name :: string
  namespace :: string
  prefix :: string
  region :: string
  statistics :: string

text \<open>\<open>get_dimensions\<close>: \<open>bits[1]\<close> raises \<open>IndexError\<close> on a pair without a colon.\<close>

definition get_dimensions :: "metric \<Rightarrow> py_error + (string \<times> string) list" where
  "get_dimensions self =
     (if dimensions self = [] then Inr []
      else collect (map (\<lambda>pair. case py_split (CHR '':'') pair of
                                    b0 # b1 # rest \<Rightarrow> Inr (b0, b1)
                                  | _ \<Rightarrow> Inl IndexError)
                        (py_split (CHR '','') (dimensions self))))"

text \<open>
  \<open>get_statistics(metric, offset)\<close> returns \<open>None\<close> beyond offset 20, else asks
  CloudWatch. \<open>BotoCoreError\<close> and \<open>ClientError\<close> are caught: the program prints
  \<open>UNKNOWN - <err>\<close> and exits with \<open>STATE_UNKNOWN\<close>. With no datapoints and
  \<open>last_state\<close> set it asks again, one minute further back, and returns what that gives.
  The result is the list \<open>Datapoints\<close> of the answer, or \<open>None\<close>.
\<close>

function get_statistics :: "aws \<Rightarrow> metric \<Rightarrow> nat \<Rightarrow> real list option io" where
  "get_statistics w self offset evs =
     (if offset > 20 then (Return None, evs)
      else
        (case get_dimensions self of
           Inl e \<Rightarrow> (Raise e, evs)
         | Inr dims \<Rightarrow>
             (case cw_get_statistics w (name self) offset of
                Inl (ClientError msg) \<Rightarrow>
                  (SysExit STATE_UNKNOWN (''UNKNOWN - '' @ msg),
                   evs @ [GetStatistics (name self) offset])
              | Inl e \<Rightarrow> (Raise e, evs @ [GetStatistics (name self) offset])
              | Inr datapoints \<Rightarrow>
                  if datapoints = [] \<and> last_state self then
                    get_statistics w self (offset + 1) (evs @ [GetStatistics (name self) offset])
                  else (Return (Some datapoints), evs @ [GetStatistics (name self) offset]))))"
  by pat_completeness auto
termination
  by (relation "measure (\<lambda>(w, self, offset, evs). 21 - offset)") auto

declare get_statistics.simps [simp del]

text \<open>
  \<open>get_current_value\<close>: \<open>statistics['Datapoints']\<close> raises \<open>TypeError\<close> when
  \<open>get_statistics\<close> returned \<open>None\<close>; else \<open>None\<close> for no datapoints, or the requested
  statistic of the last datapoint.
\<close>

definition get_current_value :: "aws \<Rightarrow> metric \<Rightarrow> real option io" where
  "get_current_value w self =
     bind_io (get_statistics w self 0) (\<lambda>stats.
       case stats of
         None \<Rightarrow> raise_io TypeError
       | Some datapoints \<Rightarrow>
           if datapoints = [] then return_io None else return_io (Some (last datapoints)))"

section \<open>The three measurements (lines 238 to 300)\<close>

text \<open>The attributes of the parsed command line that the program reads.\<close>

record args =
  warn_cpu :: string
  crit_cpu :: string
  warn_conns :: string
  crit_conns :: string
  warn_disk :: string
  crit_disk :: string
  arg_instance :: string
  arg_last_state :: bool
  percent :: bool
  arg_region :: string

definition rds_metric :: "args \<Rightarrow> string \<Rightarrow> string \<Rightarrow> metric" where
  "rds_metric a metric_name stat =
     \<lparr>dimensions = ''DBInstanceIdentifier:'' @ arg_instance a,
      last_state = arg_last_state a,
      minutes = 5,
      name = metric_name,
      namespace = ''RDS'',
      prefix = ''AWS'',
      region = arg_region a,
      statistics = stat\<rparr>"

text \<open>
  \<open>unused_connections\<close>: the subtraction \<open>instance.max_connections - get_current_value()\<close>
  evaluates the property first, then samples, and raises \<open>TypeError\<close> when the sample
  is \<open>None\<close>; the percentage divides by \<open>max_connections\<close>.
\<close>

definition unused_connections :: "args \<Rightarrow> aws \<Rightarrow> real option io" where
  "unused_connections a w =
     bind_io (DbInstance w (arg_instance a)) (\<lambda>inst.
     bind_io (lift_io (max_connections inst)) (\<lambda>mc.
     bind_io (get_current_value w (rds_metric a ''DatabaseConnections'' ''Minimum'')) (\<lambda>cur.
       case cur of
         None \<Rightarrow> raise_io TypeError
       | Some c \<Rightarrow>
           if percent a then
             (if mc = 0 then raise_io ZeroDivisionError
              else return_io (Some ((of_int mc - c) / of_int mc * 100)))
           else return_io (Some (of_int mc - c)))))"

text \<open>
  \<open>free_storage\<close>: the sample as it is, or as a percentage of the allocated storage;
  \<open>None / instance.storage\<close> raises \<open>TypeError\<close>.
\<close>

definition free_storage :: "args \<Rightarrow> aws \<Rightarrow> real option io" where
  "free_storage a w =
     bind_io (DbInstance w (arg_instance a)) (\<lambda>inst.
     bind_io (get_current_value w (rds_metric a ''FreeStorageSpace'' ''Minimum'')) (\<lambda>cur.
       if percent a then
         (case cur of
            None \<Rightarrow> raise_io TypeError
          | Some c \<Rightarrow>
              if storage inst = 0 then raise_io ZeroDivisionError
              else return_io (Some (c / of_int (storage inst) * 100)))
       else return_io cur))"

definition cpu_used :: "args \<Rightarrow> aws \<Rightarrow> real option io" where
  "cpu_used a w = get_current_value w (rds_metric a ''CPUUtilization'' ''Maximum'')"

section \<open>main (lines 326 to 398)\<close>

text \<open>One entry of \<open>states\<close>: the dictionary with the keys name, state, value, unit.\<close>

record item =
  item_name :: string
  item_state :: state
  item_value :: "real option"
  item_unit :: string

text \<open>Lines 380 to 391: the overall state and its label.\<close>

definition overall :: "item list \<Rightarrow> state \<times> string" where
  "overall states =
     (if filter (\<lambda>i. item_state i = STATE_CRIT) states \<noteq> [] then (STATE_CRIT, ''CRITICAL:'')
      else if filter (\<lambda>i. item_state i = STATE_WARN) states \<noteq> [] then (STATE_WARN, ''WARNING:'')
      else if filter (\<lambda>i. item_state i = STATE_UNKNOWN) states \<noteq> [] then
        (STATE_UNKNOWN, ''UNKNOWN:'')
      else (STATE_OK, ''OK:''))"

text \<open>
  Lines 393 to 397. How Python writes a float is a parameter, \<open>fmt\<close>; \<open>None\<close> is written
  \<open>None\<close>. \<open>print\<close> puts one space between its two arguments.
\<close>

definition render :: "(real \<Rightarrow> string) \<Rightarrow> item \<Rightarrow> string" where
  "render fmt i =
     item_name i @ '':'' @ (case item_value i of None \<Rightarrow> ''None'' | Some v \<Rightarrow> fmt v)
       @ item_unit i"

definition summary :: "(real \<Rightarrow> string) \<Rightarrow> item list \<Rightarrow> string" where
  "summary fmt states = snd (overall states) @ '' '' @ py_join '', '' (map (render fmt) states)"

definition report :: "(real \<Rightarrow> string) \<Rightarrow> item list \<Rightarrow> unit io" where
  "report fmt states evs = (SysExit (fst (overall states)) (summary fmt states), evs)"

text \<open>The expression \<open>STATE_UNKNOWN if value is None else compare(value, warn, crit)\<close>.\<close>

definition metric_state :: "real option \<Rightarrow> pyval \<Rightarrow> pyval \<Rightarrow> py_error + state" where
  "metric_state v warn crit =
     (case v of None \<Rightarrow> Inr STATE_UNKNOWN | Some x \<Rightarrow> compare x warn crit)"

text \<open>
  The same for the disk, where both thresholds go through \<open>expand_unit\<close> first, the
  warning one before the critical one, and only when there is a value.
\<close>

definition disk_state :: "real option \<Rightarrow> string \<Rightarrow> string \<Rightarrow> py_error + state" where
  "disk_state v warn crit =
     (case v of
        None \<Rightarrow> Inr STATE_UNKNOWN
      | Some x \<Rightarrow>
          (case expand_unit warn of
             Inl e \<Rightarrow> Inl e
           | Inr wn \<Rightarrow>
               (case expand_unit crit of
                  Inl e \<Rightarrow> Inl e
                | Inr cr \<Rightarrow> compare x wn cr)))"

text \<open>Line 369: \<open>value if args.percent else value / 1024 / 1024\<close>.\<close>

definition disk_shown :: "bool \<Rightarrow> real option \<Rightarrow> py_error + real option" where
  "disk_shown pct v =
     (if pct then Inr v
      else (case v of None \<Rightarrow> Inl TypeError | Some x \<Rightarrow> Inr (Some (x / 1024 / 1024))))"

text \<open>
  \<open>main\<close> after the command line is parsed: connections, storage, CPU, in this order,
  each state computed right after its measurement; then the report. It starts with an
  empty trace and never returns: it exits or dies of an exception.
\<close>

definition main :: "(real \<Rightarrow> string) \<Rightarrow> args \<Rightarrow> aws \<Rightarrow> unit outcome \<times> event list" where
  "main fmt a w =
     bind_io (unused_connections a w) (\<lambda>v1.
     bind_io (lift_io (metric_state v1 (PStr (warn_conns a)) (PStr (crit_conns a)))) (\<lambda>s1.
     bind_io (free_storage a w) (\<lambda>v2.
     bind_io (lift_io (disk_state v2 (warn_disk a) (crit_disk a))) (\<lambda>s2.
     bind_io (lift_io (disk_shown (percent a) v2)) (\<lambda>shown.
     bind_io (cpu_used a w) (\<lambda>v3.
     bind_io (lift_io (metric_state v3 (PStr (warn_cpu a)) (PStr (crit_cpu a)))) (\<lambda>s3.
       report fmt
         [\<lparr>item_name = ''free_connections'', item_state = s1, item_value = v1,
           item_unit = (if percent a then ''%'' else [])\<rparr>,
          \<lparr>item_name = ''free_storage'', item_state = s2, item_value = shown,
           item_unit = (if percent a then ''%'' else '' MiB'')\<rparr>,
          \<lparr>item_name = ''cpu_used'', item_state = s3, item_value = v3,
           item_unit = ''%''\<rparr>]))))))) []"

section \<open>Notions used in the statements\<close>


text \<open>
  The range of the specification and its containment test, following the words of the
  specification: a bound is a number or infinite (\<open>None\<close>); without inversion a value
  is rejected when it is below a finite lower bound or above a finite upper bound; with
  inversion, when it is at or below the lower bound or at or above the upper bound.
\<close>

record range_spec =
  inverted :: bool
  lowerBound :: "real option"
  upperBound :: "real option"

definition containment :: "range_spec \<Rightarrow> real \<Rightarrow> bool" where
  "containment r v =
     (if inverted r then
        \<not> ((case lowerBound r of None \<Rightarrow> False | Some l \<Rightarrow> v \<le> l)
           \<or> (case upperBound r of None \<Rightarrow> False | Some u \<Rightarrow> v \<ge> u))
      else
        \<not> ((case lowerBound r of None \<Rightarrow> False | Some l \<Rightarrow> v < l)
           \<or> (case upperBound r of None \<Rightarrow> False | Some u \<Rightarrow> v > u)))"

text \<open>
  The rule of the chain that applies to a value without a colon, as (length of the
  suffix, factor), tested in the order of the source; and what the chain returns.
\<close>

definition unit_rule :: "string \<Rightarrow> (nat \<times> int) option" where
  "unit_rule v =
     (if endswith v ''K'' then Some (1, 1000)
      else if endswith v ''Ki'' then Some (2, 1024)
      else if endswith v ''M'' then Some (1, 1000000)
      else if endswith v ''Mi'' then Some (2, 1048576)
      else if endswith v ''G'' then Some (1, 1000000000)
      else if endswith v ''Gi'' then Some (2, 1073741824)
      else None)"

definition token_result :: "string \<Rightarrow> py_error + pyval" where
  "token_result t =
     (case unit_rule t of
        None \<Rightarrow> Inr (PStr t)
      | Some (n, f) \<Rightarrow> times_unit (drop_last n t) f)"

text \<open>A field is acceptable when it has no suffix, or \<open>int\<close> accepts what precedes it.\<close>

definition token_ok :: "string \<Rightarrow> bool" where
  "token_ok t =
     (case unit_rule t of
        None \<Rightarrow> True
      | Some (n, f) \<Rightarrow> (case py_int (drop_last n t) of Inl e \<Rightarrow> False | Inr k \<Rightarrow> True))"

text \<open>A computation only adds events to the trace it is given.\<close>

definition grows :: "'a io \<Rightarrow> bool" where
  "grows m = (\<forall>evs. \<exists>t. snd (m evs) = evs @ t)"

text \<open>
  A concrete command line and a concrete account in which every call succeeds and every
  metric has one datapoint; the instances below change one field of them at a time.
\<close>

definition example_args :: args where
  "example_args =
     \<lparr>warn_cpu = ''80'', crit_cpu = ''90'',
      warn_conns = ''10:'', crit_conns = ''5:'',
      warn_disk = ''1000Mi:'', crit_disk = ''500Mi:'',
      arg_instance = ''db1'', arg_last_state = False, percent = False,
      arg_region = ''eu-central-1''\<rparr>"

definition example_aws :: aws where
  "example_aws =
     \<lparr>rds_describe_db_instances = (\<lambda>i. Inr \<lparr>DBParameterGroupName = ''default.mysql8.0'',
                                              DBInstanceClass = ''db.t3.micro'',
                                              AllocatedStorage = 20\<rparr>),
      rds_describe_db_parameters =
        (\<lambda>g. Inr (\<lambda>k. if k = ''max_connections'' then Some ''{DBInstanceClassMemory/12582880}''
                       else None)),
      ec2_describe_instance_types = (\<lambda>c. Inr 1024),
      cw_get_statistics =
        (\<lambda>m k. Inr [if m = ''FreeStorageSpace'' then 8589934592 else 3])\<rparr>"

section \<open>Severity and aggregation\<close>







section \<open>The order of the two ranges\<close>

text \<open>
  Claim C7. For a present sample the critical range is checked first: a value outside
  it is CRITICAL whatever the warning range is (the warning range is not even parsed);
  a value inside the critical range and outside the warning range is WARNING; a value
  inside both is OK. So a value outside both ranges is CRITICAL, never WARNING.
\<close>

theorem compare_critical_first:
  "(compare_range v crit = Inr False \<longrightarrow> metric_state (Some v) warn crit = Inr STATE_CRIT)
   \<and> (compare_range v crit = Inr True \<and> compare_range v warn = Inr False
        \<longrightarrow> metric_state (Some v) warn crit = Inr STATE_WARN)
   \<and> (compare_range v crit = Inr True \<and> compare_range v warn = Inr True
        \<longrightarrow> metric_state (Some v) warn crit = Inr STATE_OK)
   \<and> metric_state (Some v) warn crit = compare v warn crit"
  by (simp add: metric_state_def compare_def)

theorem compare_critical_first_witness:
  "compare_range 25 (PStr ''20'') = Inr False
   \<and> compare_range 25 (PStr ''10'') = Inr False
   \<and> metric_state (Some 25) (PStr ''10'') (PStr ''20'') = Inr STATE_CRIT
   \<and> compare_range 15 (PStr ''20'') = Inr True
   \<and> metric_state (Some 15) (PStr ''10'') (PStr ''20'') = Inr STATE_WARN
   \<and> compare_range 5 (PStr ''10'') = Inr True
   \<and> metric_state (Some 5) (PStr ''10'') (PStr ''20'') = Inr STATE_OK"
proof -
  have c25: "compare_range 25 (PStr ''20'') = Inr False" by code_simp
  have w25: "compare_range 25 (PStr ''10'') = Inr False" by code_simp
  have c15: "compare_range 15 (PStr ''20'') = Inr True" by code_simp
  have w15: "compare_range 15 (PStr ''10'') = Inr False" by code_simp
  have c5: "compare_range 5 (PStr ''20'') = Inr True" by code_simp
  have w5: "compare_range 5 (PStr ''10'') = Inr True" by code_simp
  note t25 = compare_critical_first [of 25 "PStr ''20''" "PStr ''10''"]
  note t15 = compare_critical_first [of 15 "PStr ''20''" "PStr ''10''"]
  note t5 = compare_critical_first [of 5 "PStr ''20''" "PStr ''10''"]
  have a: "metric_state (Some 25) (PStr ''10'') (PStr ''20'') = Inr STATE_CRIT"
    by (rule t25 [THEN conjunct1, THEN mp, OF c25])
  have b: "metric_state (Some 15) (PStr ''10'') (PStr ''20'') = Inr STATE_WARN"
    by (rule t15 [THEN conjunct2, THEN conjunct1, THEN mp, OF conjI [OF c15 w15]])
  have c: "metric_state (Some 5) (PStr ''10'') (PStr ''20'') = Inr STATE_OK"
    by (rule t5 [THEN conjunct2, THEN conjunct2, THEN conjunct1, THEN mp, OF conjI [OF c5 w5]])
  from c25 w25 a c15 b w5 c show ?thesis by (intro conjI)
qed

section \<open>Containment in a range\<close>

lemma py_split_no_sep: "val \<in> set (py_split c s) \<Longrightarrow> c \<notin> set val"
proof (induction s arbitrary: val)
  case Nil
  then show ?case by simp
next
  case (Cons x xs)
  show ?case
  proof (cases "x = c")
    case True
    with Cons show ?thesis by auto
  next
    case False
    then obtain w ws where ws: "py_split c xs = w # ws"
      by (cases "py_split c xs") (cases xs, auto split: if_splits list.splits)
    with Cons False show ?thesis by auto
  qed
qed

lemma py_split_none: "c \<notin> set s \<Longrightarrow> py_split c s = [s]"
  by (induction s) auto

lemma py_split_first: "c \<notin> set a \<Longrightarrow> py_split c (a @ c # b) = a # py_split c b"
  by (induction a) auto

lemma parse_bound_empty: "parse_bound [] = Inl ValueError"
  by (simp add: parse_bound_def py_float_def strip_def)

lemma in_bounds_finite:
  "in_bounds incl (map_option Fin lo) (map_option Fin hi) v
     = containment \<lparr>inverted = incl, lowerBound = lo, upperBound = hi\<rparr> v"
  by (cases lo; cases hi; cases incl) (auto simp: in_bounds_def containment_def)

lemma compare_range_colon:
  assumes lo: "CHR '':'' \<notin> set lo_s" and nat: "\<not> startswith lo_s ''@''"
    and pl: "parse_bound lo_s = Inr start"
    and ph: "parse_bound (if hi_s \<noteq> [] then hi_s else ''~'') = Inr stop"
    and hi: "CHR '':'' \<notin> set hi_s"
  shows "compare_range v (PStr (lo_s @ '':'' @ hi_s)) = Inr (in_bounds False start stop v)"
    and "compare_range v (PStr (''@'' @ lo_s @ '':'' @ hi_s)) = Inr (in_bounds True start stop v)"
proof -
  have sp: "py_split (CHR '':'') (lo_s @ '':'' @ hi_s) = [lo_s, hi_s]"
    using lo hi by (simp add: py_split_first py_split_none)
  from pl have ne: "lo_s \<noteq> []" using parse_bound_empty by auto
  then obtain c cs where cs: "lo_s = c # cs" by (cases lo_s) auto
  with nat have c: "c \<noteq> CHR ''@''" by (simp add: startswith_def)
  show "compare_range v (PStr (lo_s @ '':'' @ hi_s)) = Inr (in_bounds False start stop v)"
    using sp pl ph c unfolding cs by (simp add: compare_range_def)
  show "compare_range v (PStr (''@'' @ lo_s @ '':'' @ hi_s)) = Inr (in_bounds True start stop v)"
    using sp pl ph by (simp add: compare_range_def)
qed

lemma compare_range_single:
  assumes nc: "CHR '':'' \<notin> set n_s" and nat: "\<not> startswith n_s ''@''"
    and pn: "parse_bound n_s = Inr stop"
  shows "compare_range v (PStr n_s) = Inr (in_bounds False (Some (Fin 0)) stop v)"
    and "compare_range v (PStr (''@'' @ n_s)) = Inr (in_bounds True (Some (Fin 0)) stop v)"
proof -
  from pn have "n_s \<noteq> []" using parse_bound_empty by auto
  then obtain c cs where cs: "n_s = c # cs" by (cases n_s) auto
  with nat have c: "c \<noteq> CHR ''@''" by (simp add: startswith_def)
  show "compare_range v (PStr n_s) = Inr (in_bounds False (Some (Fin 0)) stop v)"
    using nc pn c unfolding cs by (simp add: compare_range_def)
  show "compare_range v (PStr (''@'' @ n_s)) = Inr (in_bounds True (Some (Fin 0)) stop v)"
    using nc pn by (simp add: compare_range_def)
qed

text \<open>
  Claim C3. For a range \<open>lower:upper\<close> whose bounds are numbers or open (\<open>~\<close>, or an
  empty upper bound), \<open>compare_range\<close> accepts a value exactly when the containment test
  of the specification does: without \<open>@\<close> the value must not be below a finite lower
  bound nor above a finite upper bound, boundaries included; with \<open>@\<close> the boundaries
  themselves are rejected too. A range written as a single bound (a number or \<open>~\<close>)
  is the range from 0 to that bound, under the same test. The instance below is the
  example of the specification: \<open>10:20\<close> accepts 10 and 20 and rejects 9.999 and 20.001;
  \<open>@10:20\<close> rejects 10 and 20 and accepts 10.5; and \<open>20\<close> accepts 0 and 20 and rejects
  any value below 0 or above 20, while \<open>@20\<close> rejects 0 and 20 as well.
\<close>

theorem compare_range_containment:
  assumes "CHR '':'' \<notin> set lo_s" and "CHR '':'' \<notin> set hi_s"
    and "\<not> startswith lo_s ''@''"
    and "parse_bound lo_s = Inr (map_option Fin lo)"
    and "parse_bound (if hi_s \<noteq> [] then hi_s else ''~'') = Inr (map_option Fin hi)"
  shows "compare_range v (PStr (lo_s @ '':'' @ hi_s))
           = Inr (containment \<lparr>inverted = False, lowerBound = lo, upperBound = hi\<rparr> v)
         \<and> compare_range v (PStr (''@'' @ lo_s @ '':'' @ hi_s))
           = Inr (containment \<lparr>inverted = True, lowerBound = lo, upperBound = hi\<rparr> v)
         \<and> containment \<lparr>inverted = False, lowerBound = Some l, upperBound = Some h\<rparr> v
           = (l \<le> v \<and> v \<le> h)
         \<and> containment \<lparr>inverted = True, lowerBound = Some l, upperBound = Some h\<rparr> v
           = (l < v \<and> v < h)
         \<and> (CHR '':'' \<notin> set n_s \<and> \<not> startswith n_s ''@''
               \<and> parse_bound n_s = Inr (map_option Fin up)
             \<longrightarrow> compare_range v (PStr n_s)
                   = Inr (containment \<lparr>inverted = False, lowerBound = Some 0, upperBound = up\<rparr> v)
                 \<and> compare_range v (PStr (''@'' @ n_s))
                   = Inr (containment \<lparr>inverted = True, lowerBound = Some 0, upperBound = up\<rparr> v))"
proof -
  have single: "CHR '':'' \<notin> set n_s \<and> \<not> startswith n_s ''@''
               \<and> parse_bound n_s = Inr (map_option Fin up)
             \<longrightarrow> compare_range v (PStr n_s)
                   = Inr (containment \<lparr>inverted = False, lowerBound = Some 0, upperBound = up\<rparr> v)
                 \<and> compare_range v (PStr (''@'' @ n_s))
                   = Inr (containment \<lparr>inverted = True, lowerBound = Some 0, upperBound = up\<rparr> v)"
  proof (intro impI)
    assume h: "CHR '':'' \<notin> set n_s \<and> \<not> startswith n_s ''@''
               \<and> parse_bound n_s = Inr (map_option Fin up)"
    have z: "Some (Fin 0) = map_option Fin (Some 0)" by simp
    from h have "compare_range v (PStr n_s)
                   = Inr (in_bounds False (map_option Fin (Some 0)) (map_option Fin up) v)"
      unfolding z [symmetric] by (intro compare_range_single) blast+
    moreover from h have "compare_range v (PStr (''@'' @ n_s))
                   = Inr (in_bounds True (map_option Fin (Some 0)) (map_option Fin up) v)"
      unfolding z [symmetric] by (intro compare_range_single) blast+
    ultimately show "compare_range v (PStr n_s)
                   = Inr (containment \<lparr>inverted = False, lowerBound = Some 0, upperBound = up\<rparr> v)
                 \<and> compare_range v (PStr (''@'' @ n_s))
                   = Inr (containment \<lparr>inverted = True, lowerBound = Some 0, upperBound = up\<rparr> v)"
      by (simp only: in_bounds_finite simp_thms)
  qed
  have "containment \<lparr>inverted = False, lowerBound = Some l, upperBound = Some h\<rparr> v
           = (l \<le> v \<and> v \<le> h)"
    by (auto simp: containment_def)
  moreover have "containment \<lparr>inverted = True, lowerBound = Some l, upperBound = Some h\<rparr> v
           = (l < v \<and> v < h)"
    by (auto simp: containment_def)
  ultimately show ?thesis
    using compare_range_colon [OF assms(1) assms(3) assms(4) assms(5) assms(2), of v] single
    by (simp only: in_bounds_finite simp_thms)
qed

theorem compare_range_containment_witness:
  "compare_range 10 (PStr ''10:20'') = Inr True
   \<and> compare_range 20 (PStr ''10:20'') = Inr True
   \<and> compare_range 9.999 (PStr ''10:20'') = Inr False
   \<and> compare_range 20.001 (PStr ''10:20'') = Inr False
   \<and> compare_range 10 (PStr ''@10:20'') = Inr False
   \<and> compare_range 20 (PStr ''@10:20'') = Inr False
   \<and> compare_range 10.5 (PStr ''@10:20'') = Inr True
   \<and> compare_range 0 (PStr ''20'') = Inr True
   \<and> compare_range 20 (PStr ''20'') = Inr True
   \<and> compare_range (- 0.001) (PStr ''20'') = Inr False
   \<and> compare_range 20.001 (PStr ''20'') = Inr False
   \<and> compare_range 0 (PStr ''@20'') = Inr False
   \<and> compare_range 20 (PStr ''@20'') = Inr False
   \<and> compare_range 10 (PStr ''@20'') = Inr True"
proof -
  have c: "CHR '':'' \<notin> set ''10''" "CHR '':'' \<notin> set ''20''" by simp_all
  have a: "\<not> startswith ''10'' ''@''" by (simp add: startswith_def)
  have l: "parse_bound ''10'' = Inr (map_option Fin (Some 10))" by code_simp
  have h: "parse_bound (if ''20'' \<noteq> [] then ''20'' else ''~'') = Inr (map_option Fin (Some 20))"
    by code_simp
  have n: "CHR '':'' \<notin> set ''20'' \<and> \<not> startswith ''20'' ''@''
           \<and> parse_bound ''20'' = Inr (map_option Fin (Some 20))"
    by code_simp
  note t = compare_range_containment [OF c a l h, of _ 0 0 "''20''" "Some 20", THEN conjunct1]
  note t' = compare_range_containment [OF c a l h, of _ 0 0 "''20''" "Some 20",
      THEN conjunct2, THEN conjunct1]
  note u = compare_range_containment [OF c a l h, of _ 0 0 "''20''" "Some 20",
      THEN conjunct2, THEN conjunct2, THEN conjunct2, THEN conjunct2, THEN mp, OF n,
      THEN conjunct1]
  note u' = compare_range_containment [OF c a l h, of _ 0 0 "''20''" "Some 20",
      THEN conjunct2, THEN conjunct2, THEN conjunct2, THEN conjunct2, THEN mp, OF n,
      THEN conjunct2]
  have s: "''10'' @ '':'' @ ''20'' = ''10:20''" "''@'' @ ''10'' @ '':'' @ ''20'' = ''@10:20''"
    "''@'' @ ''20'' = ''@20''"
    by simp_all
  have colon: "compare_range 10 (PStr ''10:20'') = Inr True
      \<and> compare_range 20 (PStr ''10:20'') = Inr True
      \<and> compare_range 9.999 (PStr ''10:20'') = Inr False
      \<and> compare_range 20.001 (PStr ''10:20'') = Inr False
      \<and> compare_range 10 (PStr ''@10:20'') = Inr False
      \<and> compare_range 20 (PStr ''@10:20'') = Inr False
      \<and> compare_range 10.5 (PStr ''@10:20'') = Inr True"
    using t [of 10] t [of 20] t [of "9.999"] t [of "20.001"] t' [of 10] t' [of 20] t' [of "10.5"]
    unfolding s by (simp add: containment_def)
  have single: "compare_range 0 (PStr ''20'') = Inr True
      \<and> compare_range 20 (PStr ''20'') = Inr True
      \<and> compare_range (- 0.001) (PStr ''20'') = Inr False
      \<and> compare_range 20.001 (PStr ''20'') = Inr False
      \<and> compare_range 0 (PStr ''@20'') = Inr False
      \<and> compare_range 20 (PStr ''@20'') = Inr False
      \<and> compare_range 10 (PStr ''@20'') = Inr True"
    using u [of 0] u [of 20] u [of "- 0.001"] u [of "20.001"] u' [of 0] u' [of 20] u' [of 10]
    unfolding s by (simp add: containment_def)
  from colon single show ?thesis by simp
qed

section \<open>Properties of unit expansion\<close>

lemma expand_unit_token: "CHR '':'' \<notin> set v \<Longrightarrow> expand_unit v = token_result v"
  by (subst expand_unit.simps) (simp add: token_result_def unit_rule_def)

lemma expand_unit_colon:
  "CHR '':'' \<in> set v \<Longrightarrow>
   expand_unit v =
     (case collect (map (\<lambda>val. map_sum id py_str (token_result val)) (py_split (CHR '':'') v)) of
        Inl e \<Rightarrow> Inl e
      | Inr ss \<Rightarrow> Inr (PStr (py_join '':'' ss)))"
proof -
  assume c: "CHR '':'' \<in> set v"
  have m: "map (\<lambda>val. map_sum id py_str (expand_unit val)) (py_split (CHR '':'') v)
        = map (\<lambda>val. map_sum id py_str (token_result val)) (py_split (CHR '':'') v)"
    by (rule map_cong [OF refl]) (simp add: expand_unit_token py_split_no_sep)
  show ?thesis by (subst expand_unit.simps) (simp only: c if_True m)
qed

lemma py_int_error: "py_int s = Inl e \<Longrightarrow> e = ValueError"
  by (auto simp: py_int_def split: list.splits if_splits option.splits)

lemma token_result_error: "token_result t = Inl e \<Longrightarrow> e = ValueError"
  by (auto simp: token_result_def times_unit_def split: option.splits sum.splits dest: py_int_error)

lemma collect_Inr: "collect (map Inr xs) = Inr xs"
  by (induction xs) auto

lemma collect_Inr_iff: "(\<exists>ys. collect rs = Inr ys) = (\<exists>ys. rs = map Inr ys)"
proof (induction rs)
  case Nil
  then show ?case by simp
next
  case (Cons r rs)
  show ?case
  proof (cases r)
    case (Inl e)
    then show ?thesis by (auto simp: Cons_eq_map_conv)
  next
    case (Inr a)
    with Cons show ?thesis by (auto simp: Cons_eq_map_conv split: sum.splits) 
  qed
qed

lemma collect_error: "collect rs = Inl e \<Longrightarrow> Inl e \<in> set rs"
  by (induction rs rule: collect.induct) (auto split: sum.splits)

lemma py_split_nonempty: "py_split c s \<noteq> []"
  by (induction s) (auto split: list.splits)

lemma endswith_append: "endswith (p @ suf) suf"
  by (simp add: endswith_def)

lemma drop_last_append: "drop_last (length suf) (p @ suf) = p"
  by (simp add: drop_last_def)

lemma unit_rule_suffix:
  "unit_rule (p @ ''K'') = Some (1, 1000)"
  "unit_rule (p @ ''Ki'') = Some (2, 1024)"
  "unit_rule (p @ ''M'') = Some (1, 1000000)"
  "unit_rule (p @ ''Mi'') = Some (2, 1048576)"
  "unit_rule (p @ ''G'') = Some (1, 1000000000)"
  "unit_rule (p @ ''Gi'') = Some (2, 1073741824)"
  by (simp_all add: unit_rule_def endswith_def)

lemma token_result_suffix:
  "token_result (p @ ''K'') = times_unit p 1000"
  "token_result (p @ ''Ki'') = times_unit p 1024"
  "token_result (p @ ''M'') = times_unit p 1000000"
  "token_result (p @ ''Mi'') = times_unit p 1048576"
  "token_result (p @ ''G'') = times_unit p 1000000000"
  "token_result (p @ ''Gi'') = times_unit p 1073741824"
  by (simp_all add: token_result_def unit_rule_suffix drop_last_def)

lemma token_ok_iff: "(\<exists>r. token_result t = Inr r) = token_ok t"
  by (auto simp: token_result_def token_ok_def times_unit_def split: option.splits sum.splits)

lemma map_Inr_iff: "(\<exists>ys. map f xs = map Inr ys) = (\<forall>x \<in> set xs. \<exists>y. f x = Inr y)"
proof (induction xs)
  case Nil
  then show ?case by simp
next
  case (Cons x xs)
  show ?case
  proof
    assume "\<exists>ys. map f (x # xs) = map Inr ys"
    then obtain ys where ys: "map f (x # xs) = map Inr ys" ..
    then obtain z zs where "ys = z # zs" by (cases ys) auto
    with ys have "f x = Inr z" "map f xs = map Inr zs" by auto
    with Cons show "\<forall>x \<in> set (x # xs). \<exists>y. f x = Inr y" by auto
  next
    assume a: "\<forall>x \<in> set (x # xs). \<exists>y. f x = Inr y"
    then obtain z where z: "f x = Inr z" by auto
    from a Cons obtain zs where "map f xs = map Inr zs" by auto
    with z have "map f (x # xs) = map Inr (z # zs)" by simp
    then show "\<exists>ys. map f (x # xs) = map Inr ys" ..
  qed
qed

lemma map_sum_Inr_iff: "(\<exists>y. map_sum id g r = Inr y) = (\<exists>z. r = Inr z)"
  by (cases r) auto

lemma expand_unit_returns_iff:
  "(\<exists>r. expand_unit v = Inr r) = list_all token_ok (py_split (CHR '':'') v)"
proof (cases "CHR '':'' \<in> set v")
  case False
  then show ?thesis
    by (simp add: expand_unit_token py_split_none token_ok_iff)
next
  case True
  let ?rs = "map (\<lambda>val. map_sum id py_str (token_result val)) (py_split (CHR '':'') v)"
  have "(\<exists>r. expand_unit v = Inr r) = (\<exists>ss. collect ?rs = Inr ss)"
    by (simp add: expand_unit_colon [OF True] split: sum.splits)
  also have "\<dots> = (\<exists>ys. ?rs = map Inr ys)" by (rule collect_Inr_iff)
  also have "\<dots> = (\<forall>t \<in> set (py_split (CHR '':'') v). \<exists>y. map_sum id py_str (token_result t) = Inr y)"
    by (rule map_Inr_iff)
  also have "\<dots> = list_all token_ok (py_split (CHR '':'') v)"
    by (simp add: map_sum_Inr_iff token_ok_iff list_all_iff)
  finally show ?thesis .
qed

lemma expand_unit_error: "expand_unit v = Inl e \<Longrightarrow> e = ValueError"
proof (cases "CHR '':'' \<in> set v")
  case False
  assume "expand_unit v = Inl e"
  with False show ?thesis by (simp add: expand_unit_token token_result_error)
next
  case True
  assume e: "expand_unit v = Inl e"
  let ?rs = "map (\<lambda>val. map_sum id py_str (token_result val)) (py_split (CHR '':'') v)"
  from e have "collect ?rs = Inl e"
    by (simp add: expand_unit_colon [OF True] split: sum.splits)
  then have "Inl e \<in> set ?rs" by (rule collect_error)
  then obtain t where "map_sum id py_str (token_result t) = Inl e" by auto
  then have "token_result t = Inl e" by (cases "token_result t") auto
  then show ?thesis by (rule token_result_error)
qed

lemma expand_unit_rejoin:
  assumes "CHR '':'' \<in> set v"
    and "map expand_unit (py_split (CHR '':'') v) = map Inr rs"
  shows "expand_unit v = Inr (PStr (py_join '':'' (map py_str rs)))"
proof -
  have "map (\<lambda>val. map_sum id py_str (expand_unit val)) (py_split (CHR '':'') v)
        = map (map_sum id py_str) (map expand_unit (py_split (CHR '':'') v))"
    by simp
  also have "\<dots> = map Inr (map py_str rs)"
    unfolding assms(2) by simp
  finally have m: "map (\<lambda>val. map_sum id py_str (expand_unit val)) (py_split (CHR '':'') v)
        = map Inr (map py_str rs)" .
  show ?thesis
    by (subst expand_unit.simps) (simp only: assms(1) if_True m collect_Inr sum.case)
qed

text \<open>
  Claim C4. Divergence of the code from the claim: the factors are the ones of the claim
  and \<open>2Ki\<close> is not caught by the \<open>K\<close> rule, but for a value without a colon the
  product is returned as an integer, not as a numeric string: \<open>8Gi\<close> gives the integer
  8589934592 (whose text would be \<open>8589934592\<close>), \<open>1000Mi\<close> the integer 1048576000,
  \<open>2Ki\<close> the integer 2048. With the thresholds of the help text, \<open>1000Mi:\<close> and
  \<open>8Gi\<close>, every present disk sample ends in \<open>TypeError\<close>, because \<open>compare_range\<close>
  indexes the integer.
\<close>

theorem expand_unit_units_are_integers:
  "expand_unit ''8Gi'' = Inr (PInt 8589934592)
   \<and> py_str (PInt 8589934592) = ''8589934592''
   \<and> expand_unit ''1000Mi'' = Inr (PInt 1048576000)
   \<and> expand_unit ''2Ki'' = Inr (PInt 2048)
   \<and> expand_unit ''1000Mi:'' = Inr (PStr ''1048576000:'')
   \<and> disk_state (Some x) ''1000Mi:'' ''8Gi'' = Inl TypeError"
proof -
  have a: "expand_unit ''8Gi'' = Inr (PInt 8589934592)" by code_simp
  have b: "py_str (PInt 8589934592) = ''8589934592''" by code_simp
  have c: "expand_unit ''1000Mi'' = Inr (PInt 1048576000)" by code_simp
  have d: "expand_unit ''2Ki'' = Inr (PInt 2048)" by code_simp
  have e: "expand_unit ''1000Mi:'' = Inr (PStr ''1048576000:'')" by code_simp
  have f: "disk_state (Some x) ''1000Mi:'' ''8Gi'' = Inl TypeError"
    by (simp add: disk_state_def a e compare_def compare_range_def)
  from a b c d e f show ?thesis by (intro conjI)
qed

text \<open>
  Claim C5, as stated, fails: \<open>expand_unit\<close> raises \<open>ValueError\<close> on \<open>1.5Gi\<close>, since
  \<open>int\<close> rejects \<open>1.5\<close>.
\<close>

theorem expand_unit_not_total: "expand_unit ''1.5Gi'' = Inl ValueError"
  by code_simp

text \<open>
  Claim C5, amended. \<open>expand_unit\<close> returns a result exactly when, in every field
  between colons that ends in a unit suffix, \<open>int\<close> accepts what stands before the
  suffix; otherwise it raises, and the only exception is \<open>ValueError\<close>. A value with no
  colon and no suffix, a plain number among them, is returned unchanged. A value with a
  colon is split, each field is expanded on its own, and the texts of the results are
  joined with colons again, empty fields kept.
\<close>

theorem expand_unit_returns:
  "((\<exists>r. expand_unit v = Inr r) = list_all token_ok (py_split (CHR '':'') v))
   \<and> (expand_unit v = Inl e \<longrightarrow> e = ValueError)
   \<and> (CHR '':'' \<notin> set v \<and> unit_rule v = None \<longrightarrow> expand_unit v = Inr (PStr v))
   \<and> (CHR '':'' \<in> set v \<and> map expand_unit (py_split (CHR '':'') v) = map Inr rs
        \<longrightarrow> expand_unit v = Inr (PStr (py_join '':'' (map py_str rs))))"
proof (intro conjI impI)
  show "(\<exists>r. expand_unit v = Inr r) = list_all token_ok (py_split (CHR '':'') v)"
    by (rule expand_unit_returns_iff)
  show "e = ValueError" if "expand_unit v = Inl e"
    using that by (rule expand_unit_error)
  show "expand_unit v = Inr (PStr v)" if "CHR '':'' \<notin> set v \<and> unit_rule v = None"
    using that by (simp add: expand_unit_token token_result_def)
  show "expand_unit v = Inr (PStr (py_join '':'' (map py_str rs)))"
    if "CHR '':'' \<in> set v \<and> map expand_unit (py_split (CHR '':'') v) = map Inr rs"
    using that expand_unit_rejoin by blast
qed

theorem expand_unit_returns_witness:
  "expand_unit ''42'' = Inr (PStr ''42'')
   \<and> expand_unit ''512Ki:'' = Inr (PStr ''524288:'')
   \<and> expand_unit '':2G'' = Inr (PStr '':2000000000'')"
proof -
  have n: "CHR '':'' \<notin> set ''42'' \<and> unit_rule ''42'' = None" by code_simp
  have a: "expand_unit ''42'' = Inr (PStr ''42'')"
    by (rule expand_unit_returns [of "''42''", THEN conjunct2, THEN conjunct2, THEN conjunct1,
          THEN mp, OF n])
  have s1: "CHR '':'' \<in> set ''512Ki:''
            \<and> map expand_unit (py_split (CHR '':'') ''512Ki:'') = map Inr [PInt 524288, PStr []]"
    by code_simp
  have j1: "py_join '':'' (map py_str [PInt 524288, PStr []]) = ''524288:''" by code_simp
  have b: "expand_unit ''512Ki:'' = Inr (PStr ''524288:'')"
    using expand_unit_returns [of "''512Ki:''" _ "[PInt 524288, PStr []]", THEN conjunct2,
        THEN conjunct2, THEN conjunct2, THEN mp, OF s1]
    unfolding j1 .
  have s2: "CHR '':'' \<in> set '':2G''
            \<and> map expand_unit (py_split (CHR '':'') '':2G'') = map Inr [PStr [], PInt 2000000000]"
    by code_simp
  have j2: "py_join '':'' (map py_str [PStr [], PInt 2000000000]) = '':2000000000''" by code_simp
  have c: "expand_unit '':2G'' = Inr (PStr '':2000000000'')"
    using expand_unit_returns [of "'':2G''" _ "[PStr [], PInt 2000000000]", THEN conjunct2,
        THEN conjunct2, THEN conjunct2, THEN mp, OF s2]
    unfolding j2 .
  from a b c show ?thesis by (intro conjI)
qed

text \<open>
  Claim C10, as stated, fails: \<open>2.5K\<close> carries a unit suffix and has no colon, and
  \<open>expand_unit\<close> returns no integer for it but raises \<open>ValueError\<close>.
\<close>

theorem expand_unit_suffix_raises: "expand_unit ''2.5K'' = Inl ValueError"
  by code_simp

text \<open>
  Claim C10, amended. For a value without a colon that ends in one of the six suffixes,
  \<open>expand_unit\<close> never returns a string: it returns the integer product when \<open>int\<close>
  accepts what stands before the suffix, and raises the exception of \<open>int\<close> otherwise.
  Only a value with a colon or with no suffix yields a string. On an integer threshold
  \<open>compare_range\<close> raises \<open>TypeError\<close> at \<open>window[0]\<close>, whatever the value.
\<close>

theorem expand_unit_integer:
  "(CHR '':'' \<notin> set v \<and> unit_rule v = Some (n, f) \<longrightarrow>
      expand_unit v =
        (case py_int (drop_last n v) of Inl e \<Rightarrow> Inl e | Inr k \<Rightarrow> Inr (PInt (k * f))))
   \<and> (expand_unit v = Inr (PStr s) \<longrightarrow> CHR '':'' \<in> set v \<or> unit_rule v = None)
   \<and> unit_rule (p @ ''K'') = Some (1, 1000)
   \<and> unit_rule (p @ ''Ki'') = Some (2, 1024)
   \<and> unit_rule (p @ ''M'') = Some (1, 1000000)
   \<and> unit_rule (p @ ''Mi'') = Some (2, 1048576)
   \<and> unit_rule (p @ ''G'') = Some (1, 1000000000)
   \<and> unit_rule (p @ ''Gi'') = Some (2, 1073741824)
   \<and> compare_range x (PInt k) = Inl TypeError"
proof -
  have a: "CHR '':'' \<notin> set v \<and> unit_rule v = Some (n, f) \<longrightarrow>
      expand_unit v =
        (case py_int (drop_last n v) of Inl e \<Rightarrow> Inl e | Inr k \<Rightarrow> Inr (PInt (k * f)))"
    by (simp add: expand_unit_token token_result_def times_unit_def)
  have b: "expand_unit v = Inr (PStr s) \<longrightarrow> CHR '':'' \<in> set v \<or> unit_rule v = None"
  proof (cases "CHR '':'' \<in> set v")
    case True
    then show ?thesis by simp
  next
    case False
    then show ?thesis
      by (auto simp: expand_unit_token token_result_def times_unit_def
               split: option.splits sum.splits)
  qed
  have c: "compare_range x (PInt k) = Inl TypeError"
    by (simp add: compare_range_def)
  from a b c show ?thesis by (simp only: unit_rule_suffix simp_thms)
qed

theorem expand_unit_integer_witness:
  "expand_unit ''64Mi'' = Inr (PInt 67108864)
   \<and> compare_range 5 (PInt 67108864) = Inl TypeError"
proof -
  have u: "CHR '':'' \<notin> set ''64Mi'' \<and> unit_rule ''64Mi'' = Some (2, 1048576)" by code_simp
  have i: "(case py_int (drop_last 2 ''64Mi'') of Inl e \<Rightarrow> Inl e
            | Inr k \<Rightarrow> Inr (PInt (k * 1048576))) = Inr (PInt 67108864)"
    by code_simp
  note t = expand_unit_integer [of "''64Mi''" 2 1048576 "[]" "[]" 5 67108864]
  have a: "expand_unit ''64Mi'' = Inr (PInt 67108864)"
    using t [THEN conjunct1, THEN mp, OF u] unfolding i .
  have b: "compare_range 5 (PInt 67108864) = Inl TypeError"
    by (rule t [THEN conjunct2, THEN conjunct2, THEN conjunct2, THEN conjunct2,
          THEN conjunct2, THEN conjunct2, THEN conjunct2, THEN conjunct2])
  from a b show ?thesis by (intro conjI)
qed

section \<open>Properties of the sampler\<close>

lemma get_statistics_step:
  assumes "offset \<le> 20" and "get_dimensions self = Inr dims"
    and "cw_get_statistics w (name self) offset = Inr []" and "last_state self"
  shows "get_statistics w self offset evs
         = get_statistics w self (Suc offset) (evs @ [GetStatistics (name self) offset])"
  using assms by (subst get_statistics.simps) simp

lemma get_statistics_skip:
  assumes "get_dimensions self = Inr dims" and "last_state self"
    and "\<forall>k<n. cw_get_statistics w (name self) k = Inr []" and "n \<le> 21"
  shows "get_statistics w self 0 evs
         = get_statistics w self n (evs @ map (GetStatistics (name self)) [0..<n])"
  using assms(3,4)
proof (induction n)
  case 0
  then show ?case by simp
next
  case (Suc m)
  then have "get_statistics w self 0 evs
             = get_statistics w self m (evs @ map (GetStatistics (name self)) [0..<m])"
    by simp
  also have "\<dots> = get_statistics w self (Suc m)
                     ((evs @ map (GetStatistics (name self)) [0..<m]) @ [GetStatistics (name self) m])"
    using Suc.prems by (intro get_statistics_step [OF _ assms(1) _ assms(2)]) simp_all
  finally show ?case by simp
qed

lemma get_statistics_data:
  assumes "offset \<le> 20" and "get_dimensions self = Inr dims"
    and "cw_get_statistics w (name self) offset = Inr ds" and "ds \<noteq> []"
  shows "get_statistics w self offset evs
         = (Return (Some ds), evs @ [GetStatistics (name self) offset])"
  using assms by (subst get_statistics.simps) simp

lemma get_statistics_no_fallback:
  assumes "get_dimensions self = Inr dims" and "\<not> last_state self"
    and "cw_get_statistics w (name self) 0 = Inr ds"
  shows "get_statistics w self 0 evs = (Return (Some ds), evs @ [GetStatistics (name self) 0])"
  using assms by (subst get_statistics.simps) simp

lemma get_statistics_client_error:
  assumes "offset \<le> 20" and "get_dimensions self = Inr dims"
    and "cw_get_statistics w (name self) offset = Inl (ClientError msg)"
  shows "get_statistics w self offset evs
         = (SysExit STATE_UNKNOWN (''UNKNOWN - '' @ msg), evs @ [GetStatistics (name self) offset])"
  using assms by (subst get_statistics.simps) simp

lemma get_statistics_beyond: "get_statistics w self 21 evs = (Return None, evs)"
  by (subst get_statistics.simps) simp

lemma get_dimensions_rds:
  assumes "CHR '','' \<notin> set (arg_instance a)"
  shows "\<exists>dims. get_dimensions (rds_metric a n s) = Inr dims"
proof -
  define d where "d = ''DBInstanceIdentifier:'' @ arg_instance a"
  have dm: "dimensions (rds_metric a n s) = d" by (simp add: rds_metric_def d_def)
  have ne: "d \<noteq> []" by (simp add: d_def)
  have "CHR '','' \<notin> set d" using assms by (simp add: d_def)
  then have sc: "py_split (CHR '','') d = [d]" by (rule py_split_none)
  have "py_split (CHR '':'') d = ''DBInstanceIdentifier'' # py_split (CHR '':'') (arg_instance a)"
    unfolding d_def
    using py_split_first [of "CHR '':''" "''DBInstanceIdentifier''" "arg_instance a"] by simp
  moreover obtain b bs where "py_split (CHR '':'') (arg_instance a) = b # bs"
    using py_split_nonempty [of "CHR '':''" "arg_instance a"]
    by (cases "py_split (CHR '':'') (arg_instance a)") auto
  ultimately have sp: "py_split (CHR '':'') d = ''DBInstanceIdentifier'' # b # bs" by simp
  show ?thesis
    by (simp add: get_dimensions_def dm ne sc sp)
qed

subsection \<open>The bounded retry\<close>

lemma get_current_value_data:
  assumes "last_state self" and "get_dimensions self = Inr dims" and "n \<le> 20"
    and "\<forall>k<n. cw_get_statistics w (name self) k = Inr []"
    and "cw_get_statistics w (name self) n = Inr ds" and "ds \<noteq> []"
  shows "get_current_value w self evs
         = (Return (Some (last ds)), evs @ map (GetStatistics (name self)) [0..<Suc n])"
proof -
  have "get_statistics w self 0 evs
        = get_statistics w self n (evs @ map (GetStatistics (name self)) [0..<n])"
    using assms by (intro get_statistics_skip) simp_all
  also have "\<dots> = (Return (Some ds),
                     (evs @ map (GetStatistics (name self)) [0..<n]) @ [GetStatistics (name self) n])"
    using assms by (intro get_statistics_data) simp_all
  finally show ?thesis
    using assms(6) by (simp add: get_current_value_def bind_io_def return_io_def)
qed

lemma get_statistics_exhausted:
  assumes "last_state self" and "get_dimensions self = Inr dims"
    and "\<forall>k<21. cw_get_statistics w (name self) k = Inr []"
  shows "get_statistics w self 0 evs
         = (Return None, evs @ map (GetStatistics (name self)) [0..<21])"
proof -
  have "get_statistics w self 0 evs
        = get_statistics w self 21 (evs @ map (GetStatistics (name self)) [0..<21])"
    using assms by (intro get_statistics_skip) simp_all
  then show ?thesis by (simp only: get_statistics_beyond)
qed

text \<open>
  Claim C1. With \<open>last_state\<close> set, when the source is empty for the first \<open>n\<close> calls
  (\<open>n\<close> at most 20) and has datapoints on the next one, the sampler returns the last of
  them after \<open>n + 1\<close> calls; \<open>n = 19\<close> is the case of the claim. When the source is
  empty for 21 calls, \<open>get_statistics\<close> stops after the 21st and returns \<open>None\<close>, but
  the sampler \<open>get_current_value\<close> does not return an absent sample: it indexes that
  \<open>None\<close> and raises \<open>TypeError\<close>.
\<close>

theorem get_current_value_bounded_retry:
  assumes "last_state self" and "get_dimensions self = Inr dims"
  shows "(n \<le> 20 \<and> (\<forall>k<n. cw_get_statistics w (name self) k = Inr [])
            \<and> cw_get_statistics w (name self) n = Inr ds \<and> ds \<noteq> []
          \<longrightarrow> get_current_value w self evs
              = (Return (Some (last ds)), evs @ map (GetStatistics (name self)) [0..<Suc n]))
       \<and> ((\<forall>k<21. cw_get_statistics w (name self) k = Inr [])
          \<longrightarrow> get_statistics w self 0 evs
                = (Return None, evs @ map (GetStatistics (name self)) [0..<21])
              \<and> get_current_value w self evs
                = (Raise TypeError, evs @ map (GetStatistics (name self)) [0..<21]))"
proof (intro conjI impI)
  assume "n \<le> 20 \<and> (\<forall>k<n. cw_get_statistics w (name self) k = Inr [])
            \<and> cw_get_statistics w (name self) n = Inr ds \<and> ds \<noteq> []"
  then show "get_current_value w self evs
              = (Return (Some (last ds)), evs @ map (GetStatistics (name self)) [0..<Suc n])"
    using assms by (intro get_current_value_data) blast+
next
  assume e: "\<forall>k<21. cw_get_statistics w (name self) k = Inr []"
  show g: "get_statistics w self 0 evs
        = (Return None, evs @ map (GetStatistics (name self)) [0..<21])"
    using assms e by (rule get_statistics_exhausted)
  show "get_current_value w self evs
        = (Raise TypeError, evs @ map (GetStatistics (name self)) [0..<21])"
    by (simp only: get_current_value_def bind_io_def g prod.case outcome.case option.case
          raise_io_def)
qed

theorem get_current_value_bounded_retry_witness:
  "get_current_value
     (example_aws\<lparr>cw_get_statistics := (\<lambda>m k. if k < 19 then Inr [] else Inr [4, 7])\<rparr>)
     (rds_metric (example_args\<lparr>arg_last_state := True\<rparr>) ''CPUUtilization'' ''Maximum'') []
     = (Return (Some 7), map (GetStatistics ''CPUUtilization'') [0..<20])
   \<and> get_current_value
     (example_aws\<lparr>cw_get_statistics := (\<lambda>m k. Inr [])\<rparr>)
     (rds_metric (example_args\<lparr>arg_last_state := True\<rparr>) ''CPUUtilization'' ''Maximum'') []
     = (Raise TypeError, map (GetStatistics ''CPUUtilization'') [0..<21])"
proof -
  let ?m = "rds_metric (example_args\<lparr>arg_last_state := True\<rparr>) ''CPUUtilization'' ''Maximum''"
  let ?w1 = "example_aws\<lparr>cw_get_statistics := (\<lambda>m k. if k < 19 then Inr [] else Inr [4, 7])\<rparr>"
  let ?w2 = "example_aws\<lparr>cw_get_statistics := (\<lambda>m k. Inr [])\<rparr>"
  have l: "last_state ?m" by (simp add: rds_metric_def)
  have n: "name ?m = ''CPUUtilization''" by (simp add: rds_metric_def)
  have d: "get_dimensions ?m = Inr [(''DBInstanceIdentifier'', ''db1'')]"
    by (simp add: get_dimensions_def rds_metric_def example_args_def)
  have h1: "(19::nat) \<le> 20 \<and> (\<forall>k<19. cw_get_statistics ?w1 (name ?m) k = Inr [])
            \<and> cw_get_statistics ?w1 (name ?m) 19 = Inr [4, 7] \<and> [4, 7::real] \<noteq> []"
    by simp
  have h2: "\<forall>k<21. cw_get_statistics ?w2 (name ?m) k = Inr []" by simp
  note t1 = get_current_value_bounded_retry [OF l d, of 19 ?w1 "[4, 7]" "[]",
      THEN conjunct1, THEN mp, OF h1]
  note t2 = get_current_value_bounded_retry [OF l d, of _ ?w2 _ "[]",
      THEN conjunct2, THEN mp, OF h2, THEN conjunct2]
  from t1 t2 show ?thesis unfolding n by simp
qed

section \<open>Runs of main\<close>

lemma DbInstance_ok:
  assumes "rds_describe_db_instances w i = Inr d"
    and "rds_describe_db_parameters w (DBParameterGroupName d) = Inr ps"
    and "ec2_describe_instance_types w (ec2_class_name (DBInstanceClass d)) = Inr cls"
  shows "DbInstance w i evs
         = (Return \<lparr>data = d, parameters = ps, instance_class = cls\<rparr>,
            evs @ [DescribeDbInstances i, DescribeDbParameters (DBParameterGroupName d),
                   DescribeInstanceTypes (ec2_class_name (DBInstanceClass d))])"
  using assms by (simp add: DbInstance_def bind_io_def call_def return_io_def)

lemma DbInstance_fails:
  assumes "rds_describe_db_instances w i = Inl e"
  shows "DbInstance w i evs = (Raise e, evs @ [DescribeDbInstances i])"
  using assms by (simp add: DbInstance_def bind_io_def call_def)

lemma main_DbInstance_raises:
  assumes "DbInstance w (arg_instance a) [] = (Raise e, evs)"
  shows "main fmt a w = (Raise e, evs)"
  using assms by (simp add: main_def unused_connections_def bind_io_def)

lemma get_current_value_client_error:
  assumes "get_dimensions self = Inr dims"
    and "cw_get_statistics w (name self) 0 = Inl (ClientError msg)"
  shows "get_current_value w self evs
         = (SysExit STATE_UNKNOWN (''UNKNOWN - '' @ msg), evs @ [GetStatistics (name self) 0])"
  using get_statistics_client_error [OF _ assms, of evs]
  by (simp add: get_current_value_def bind_io_def)

lemma main_connections_exit:
  assumes "DbInstance w (arg_instance a) [] = (Return inst, evs1)"
    and "max_connections inst = Inr mc"
    and "get_current_value w (rds_metric a ''DatabaseConnections'' ''Minimum'') evs1
         = (SysExit c t, evs2)"
  shows "main fmt a w = (SysExit c t, evs2)"
proof -
  have "unused_connections a w [] = (SysExit c t, evs2)"
    using assms by (simp add: unused_connections_def bind_io_def lift_io_def)
  then show ?thesis
    by (simp add: main_def bind_io_def)
qed

text \<open>The concrete account answers the metadata calls as follows.\<close>

lemma example_DbInstance:
  assumes "rds_describe_db_instances w = rds_describe_db_instances example_aws"
    and "rds_describe_db_parameters w = rds_describe_db_parameters example_aws"
    and "ec2_describe_instance_types w = ec2_describe_instance_types example_aws"
  shows "DbInstance w ''db1'' evs
         = (Return \<lparr>data = \<lparr>DBParameterGroupName = ''default.mysql8.0'',
                              DBInstanceClass = ''db.t3.micro'', AllocatedStorage = 20\<rparr>,
                     parameters = (\<lambda>k. if k = ''max_connections''
                                        then Some ''{DBInstanceClassMemory/12582880}'' else None),
                     instance_class = 1024\<rparr>,
            evs @ [DescribeDbInstances ''db1'', DescribeDbParameters ''default.mysql8.0'',
                   DescribeInstanceTypes ''t3.micro''])"
proof -
  have c: "ec2_class_name ''db.t3.micro'' = ''t3.micro''"
    by (simp add: ec2_class_name_def startswith_def)
  show ?thesis
    using DbInstance_ok [of w "''db1''"
        "\<lparr>DBParameterGroupName = ''default.mysql8.0'', DBInstanceClass = ''db.t3.micro'',
          AllocatedStorage = 20\<rparr>"
        "\<lambda>k. if k = ''max_connections'' then Some ''{DBInstanceClassMemory/12582880}'' else None"
        1024 evs]
    by (simp add: assms example_aws_def c)
qed

lemma example_max_connections:
  "max_connections \<lparr>data = d,
       parameters = (\<lambda>k. if k = ''max_connections''
                          then Some ''{DBInstanceClassMemory/12582880}'' else None),
       instance_class = 1024\<rparr> = Inr 85"
proof -
  have s1: "py_split (CHR ''{'') ''{DBInstanceClassMemory/12582880}''
            = [[], ''DBInstanceClassMemory/12582880}'']" by code_simp
  have s2: "py_split (CHR ''}'') ''DBInstanceClassMemory/12582880}''
            = [''DBInstanceClassMemory/12582880'', []]" by code_simp
  have s3: "py_split (CHR ''/'') ''DBInstanceClassMemory/12582880''
            = [''DBInstanceClassMemory'', ''12582880'']" by code_simp
  have i: "py_int ''12582880'' = Inr 12582880" by code_simp
  have q: "int_quot 1073741824 12582880 = 85" by code_simp
  show ?thesis
    by (simp add: max_connections_def startswith_def s1 s2 s3 i instance_memory_def q)
qed

text \<open>
  Claim C9. A failure of the metrics collaborator is caught: the first failing call of a
  sampling ends the program with the line \<open>UNKNOWN - <err>\<close> and the state UNKNOWN, and
  the failing call is the last event of the trace, so it is not retried. A failure of
  the metadata collaborator is not caught: \<open>DbInstance\<close> has no handler, the exception
  leaves \<open>main\<close> as it is, and the program dies of it instead of exiting with UNKNOWN.
\<close>

theorem transport_failure:
  "(get_dimensions self = Inr dims \<and> cw_get_statistics w (name self) 0 = Inl (ClientError msg)
      \<longrightarrow> get_current_value w self evs
          = (SysExit STATE_UNKNOWN (''UNKNOWN - '' @ msg), evs @ [GetStatistics (name self) 0]))
   \<and> (DbInstance w (arg_instance a) [] = (Return inst, evs1) \<and> max_connections inst = Inr mc
        \<and> CHR '','' \<notin> set (arg_instance a)
        \<and> cw_get_statistics w ''DatabaseConnections'' 0 = Inl (ClientError msg)
      \<longrightarrow> main fmt a w
          = (SysExit STATE_UNKNOWN (''UNKNOWN - '' @ msg),
             evs1 @ [GetStatistics ''DatabaseConnections'' 0]))
   \<and> (rds_describe_db_instances w (arg_instance a) = Inl (ClientError msg)
      \<longrightarrow> main fmt a w = (Raise (ClientError msg), [DescribeDbInstances (arg_instance a)]))
   \<and> (DbInstance w (arg_instance a) [] = (Raise e, evs2) \<longrightarrow> main fmt a w = (Raise e, evs2))"
proof (intro conjI impI)
  assume "get_dimensions self = Inr dims
          \<and> cw_get_statistics w (name self) 0 = Inl (ClientError msg)"
  then show "get_current_value w self evs
          = (SysExit STATE_UNKNOWN (''UNKNOWN - '' @ msg), evs @ [GetStatistics (name self) 0])"
    using get_current_value_client_error by blast
next
  assume h: "DbInstance w (arg_instance a) [] = (Return inst, evs1) \<and> max_connections inst = Inr mc
        \<and> CHR '','' \<notin> set (arg_instance a)
        \<and> cw_get_statistics w ''DatabaseConnections'' 0 = Inl (ClientError msg)"
  let ?m = "rds_metric a ''DatabaseConnections'' ''Minimum''"
  from h obtain dims' where d: "get_dimensions ?m = Inr dims'"
    using get_dimensions_rds by blast
  have n: "name ?m = ''DatabaseConnections''" by (simp add: rds_metric_def)
  from h have "cw_get_statistics w (name ?m) 0 = Inl (ClientError msg)"
    unfolding n by simp
  then have "get_current_value w ?m evs1
       = (SysExit STATE_UNKNOWN (''UNKNOWN - '' @ msg), evs1 @ [GetStatistics (name ?m) 0])"
    by (rule get_current_value_client_error [OF d])
  then have "get_current_value w ?m evs1
       = (SysExit STATE_UNKNOWN (''UNKNOWN - '' @ msg),
          evs1 @ [GetStatistics ''DatabaseConnections'' 0])"
    unfolding n .
  with h show "main fmt a w
          = (SysExit STATE_UNKNOWN (''UNKNOWN - '' @ msg),
             evs1 @ [GetStatistics ''DatabaseConnections'' 0])"
    by (intro main_connections_exit) blast+
next
  assume "rds_describe_db_instances w (arg_instance a) = Inl (ClientError msg)"
  then have "DbInstance w (arg_instance a) []
             = (Raise (ClientError msg), [] @ [DescribeDbInstances (arg_instance a)])"
    by (rule DbInstance_fails)
  then show "main fmt a w = (Raise (ClientError msg), [DescribeDbInstances (arg_instance a)])"
    by (simp add: main_DbInstance_raises)
next
  assume "DbInstance w (arg_instance a) [] = (Raise e, evs2)"
  then show "main fmt a w = (Raise e, evs2)" by (rule main_DbInstance_raises)
qed

theorem transport_failure_witness:
  "main (\<lambda>v. []) example_args
     (example_aws\<lparr>cw_get_statistics := (\<lambda>m k. Inl (ClientError ''Throttling''))\<rparr>)
   = (SysExit STATE_UNKNOWN ''UNKNOWN - Throttling'',
      [DescribeDbInstances ''db1'', DescribeDbParameters ''default.mysql8.0'',
       DescribeInstanceTypes ''t3.micro'', GetStatistics ''DatabaseConnections'' 0])
   \<and> main (\<lambda>v. []) example_args
     (example_aws\<lparr>rds_describe_db_instances := (\<lambda>i. Inl (ClientError ''AccessDenied''))\<rparr>)
   = (Raise (ClientError ''AccessDenied''), [DescribeDbInstances ''db1''])"
proof -
  let ?w1 = "example_aws\<lparr>cw_get_statistics := (\<lambda>m k. Inl (ClientError ''Throttling''))\<rparr>"
  let ?w2 = "example_aws\<lparr>rds_describe_db_instances := (\<lambda>i. Inl (ClientError ''AccessDenied''))\<rparr>"
  let ?inst = "\<lparr>data = \<lparr>DBParameterGroupName = ''default.mysql8.0'',
                              DBInstanceClass = ''db.t3.micro'', AllocatedStorage = 20\<rparr>,
                     parameters = (\<lambda>k. if k = ''max_connections''
                                        then Some ''{DBInstanceClassMemory/12582880}'' else None),
                     instance_class = 1024\<rparr>"
  have i: "arg_instance example_args = ''db1''" by (simp add: example_args_def)
  have h1: "DbInstance ?w1 (arg_instance example_args) []
              = (Return ?inst, [DescribeDbInstances ''db1'', DescribeDbParameters ''default.mysql8.0'',
                   DescribeInstanceTypes ''t3.micro''])
            \<and> max_connections ?inst = Inr 85
            \<and> CHR '','' \<notin> set (arg_instance example_args)
            \<and> cw_get_statistics ?w1 ''DatabaseConnections'' 0 = Inl (ClientError ''Throttling'')"
    unfolding i using example_DbInstance [of ?w1 "[]"] example_max_connections by simp
  have h2: "rds_describe_db_instances ?w2 (arg_instance example_args)
            = Inl (ClientError ''AccessDenied'')" by simp
  note t1 = transport_failure [THEN conjunct2, THEN conjunct1, THEN mp, OF h1]
  note t2 = transport_failure [THEN conjunct2, THEN conjunct2, THEN conjunct1, THEN mp, OF h2]
  from t1 [of "\<lambda>v. []"] t2 [of "\<lambda>v. []"] show ?thesis unfolding i by simp
qed

subsection \<open>Malformed thresholds\<close>

lemma compare_range_error_any_value:
  assumes "compare_range v win = Inl e"
  shows "compare_range v' win = Inl e"
proof (cases win)
  case (PInt n)
  with assms show ?thesis by (simp add: compare_range_def)
next
  case (PStr s)
  show ?thesis
  proof (cases s)
    case Nil
    with assms PStr show ?thesis by (simp add: compare_range_def)
  next
    case (Cons c cs)
    define window where "window = (if c = CHR ''@'' then cs else c # cs)"
    have u: "compare_range x (PStr (c # cs)) =
       (if CHR '':'' \<notin> set window then
             (case parse_bound window of
                Inl e \<Rightarrow> Inl e
              | Inr stop \<Rightarrow> Inr (in_bounds (c = CHR ''@'') (Some (Fin 0)) stop x))
           else
             (case py_split (CHR '':'') window of
                b0 # b1 # rest \<Rightarrow>
                  (case parse_bound b0 of
                     Inl e \<Rightarrow> Inl e
                   | Inr start \<Rightarrow>
                       (case parse_bound (if b1 \<noteq> [] then b1 else ''~'') of
                          Inl e \<Rightarrow> Inl e
                        | Inr stop \<Rightarrow> Inr (in_bounds (c = CHR ''@'') start stop x)))
              | _ \<Rightarrow> Inl IndexError))" for x
      by (simp add: compare_range_def Let_def window_def)
    show ?thesis
    proof (cases "CHR '':'' \<in> set window")
      case False
      with assms show ?thesis unfolding PStr Cons u
        by (cases "parse_bound window") simp_all
    next
      case True
      show ?thesis
      proof (cases "py_split (CHR '':'') window")
        case Nil
        with assms True show ?thesis unfolding PStr Cons u by simp
      next
        case l1: (Cons b0 bs)
        show ?thesis
        proof (cases bs)
          case Nil
          with assms True l1 show ?thesis unfolding PStr Cons u by simp
        next
          case l2: (Cons b1 rest)
          show ?thesis
          proof (cases "parse_bound b0")
            case (Inl e0)
            with assms True l1 l2 show ?thesis unfolding PStr Cons u by simp
          next
            case (Inr start)
            with assms True l1 l2 show ?thesis unfolding PStr Cons u
              by (cases "parse_bound (if b1 \<noteq> [] then b1 else ''~'')") simp_all
          qed
        qed
      qed
    qed
  qed
qed

lemma get_statistics_sampled:
  "get_statistics w self offset evs = (Return (Some ds), evs')
   \<Longrightarrow> \<exists>k. GetStatistics (name self) k \<in> set evs'"
proof (induction w self offset evs rule: get_statistics.induct)
  case (1 w self offset evs)
  from "1.prems" show ?case
    by (subst (asm) get_statistics.simps)
       (auto split: if_splits sum.splits py_error.splits dest: "1.IH")
qed

lemma get_current_value_sampled:
  assumes "get_current_value w self evs = (Return (Some c), evs')"
  shows "\<exists>k. GetStatistics (name self) k \<in> set evs'"
proof -
  from assms obtain ds where "get_statistics w self 0 evs = (Return (Some ds), evs')"
    by (auto simp: get_current_value_def bind_io_def raise_io_def return_io_def
             split: prod.splits outcome.splits option.splits if_splits)
  then show ?thesis by (rule get_statistics_sampled)
qed

lemma unused_connections_sampled:
  assumes "unused_connections a w evs0 = (Return x, evs)"
  shows "\<exists>k. GetStatistics ''DatabaseConnections'' k \<in> set evs"
proof -
  let ?m = "rds_metric a ''DatabaseConnections'' ''Minimum''"
  from assms obtain c evs1 where "get_current_value w ?m evs1 = (Return (Some c), evs)"
    by (auto simp: unused_connections_def bind_io_def lift_io_def raise_io_def return_io_def
             split: prod.splits outcome.splits option.splits if_splits sum.splits)
  then have "\<exists>k. GetStatistics (name ?m) k \<in> set evs" by (rule get_current_value_sampled)
  then show ?thesis by (simp add: rds_metric_def)
qed

lemma main_connections_threshold:
  assumes "unused_connections a w [] = (Return (Some v), evs)"
    and "compare v (PStr (warn_conns a)) (PStr (crit_conns a)) = Inl e"
  shows "main fmt a w = (Raise e, evs)"
  using assms by (simp add: main_def bind_io_def lift_io_def metric_state_def)

lemma py_float_error: "py_float s = Inl e \<Longrightarrow> e = ValueError"
  by (auto simp: py_float_def split: list.splits if_splits option.splits)

lemma parse_bound_error: "parse_bound s = Inl e \<Longrightarrow> e = ValueError"
  by (auto simp: parse_bound_def split: if_splits sum.splits dest: py_float_error)

lemma py_split_two:
  "c \<in> set s \<Longrightarrow> \<exists>a b rest. py_split c s = a # b # rest"
proof (induction s)
  case Nil
  then show ?case by simp
next
  case (Cons x xs)
  show ?case
  proof (cases "x = c")
    case True
    obtain b rest where "py_split c xs = b # rest"
      using py_split_nonempty [of c xs] by (cases "py_split c xs") auto
    with True show ?thesis by simp
  next
    case False
    with Cons.prems have "c \<in> set xs" by simp
    then obtain a b rest where "py_split c xs = a # b # rest"
      using Cons.IH by blast
    with False show ?thesis by simp
  qed
qed

lemma compare_range_error_kind:
  assumes "compare_range x (PStr s) = Inl e"
  shows "(s = [] \<and> e = IndexError) \<or> (s \<noteq> [] \<and> e = ValueError)"
proof (cases s)
  case Nil
  with assms show ?thesis by (simp add: compare_range_def)
next
  case (Cons c cs)
  define window where "window = (if c = CHR ''@'' then cs else c # cs)"
  show ?thesis
  proof (cases "CHR '':'' \<in> set window")
    case False
    with assms have "parse_bound window = Inl e"
      unfolding Cons by (auto simp: compare_range_def Let_def window_def split: sum.splits)
    then have "e = ValueError" by (rule parse_bound_error)
    with Cons show ?thesis by simp
  next
    case True
    then obtain b0 b1 rest where sp: "py_split (CHR '':'') window = b0 # b1 # rest"
      using py_split_two by blast
    from assms True sp
    have "parse_bound b0 = Inl e \<or> parse_bound (if b1 \<noteq> [] then b1 else ''~'') = Inl e"
      unfolding Cons window_def
      by (simp add: compare_range_def Let_def split: sum.splits if_splits)
    then have "e = ValueError" using parse_bound_error by blast
    with Cons show ?thesis by simp
  qed
qed

lemma free_storage_sampled:
  assumes "free_storage a w evs0 = (Return (Some x), evs)"
  shows "\<exists>k. GetStatistics ''FreeStorageSpace'' k \<in> set evs"
proof -
  let ?m = "rds_metric a ''FreeStorageSpace'' ''Minimum''"
  from assms obtain c evs1 where "get_current_value w ?m evs1 = (Return (Some c), evs)"
    by (auto simp: free_storage_def bind_io_def raise_io_def return_io_def
             split: prod.splits outcome.splits option.splits if_splits)
  then have "\<exists>k. GetStatistics (name ?m) k \<in> set evs" by (rule get_current_value_sampled)
  then show ?thesis by (simp add: rds_metric_def)
qed

lemma cpu_used_sampled:
  assumes "cpu_used a w evs0 = (Return (Some x), evs)"
  shows "\<exists>k. GetStatistics ''CPUUtilization'' k \<in> set evs"
proof -
  let ?m = "rds_metric a ''CPUUtilization'' ''Maximum''"
  from assms have "get_current_value w ?m evs0 = (Return (Some x), evs)"
    by (simp add: cpu_used_def)
  then have "\<exists>k. GetStatistics (name ?m) k \<in> set evs" by (rule get_current_value_sampled)
  then show ?thesis by (simp add: rds_metric_def)
qed

lemma main_disk_threshold:
  assumes "unused_connections a w [] = (Return c1, evs1)"
    and "metric_state c1 (PStr (warn_conns a)) (PStr (crit_conns a)) = Inr st1"
    and "free_storage a w evs1 = (Return c2, evs2)"
    and "disk_state c2 (warn_disk a) (crit_disk a) = Inl e"
  shows "main fmt a w = (Raise e, evs2)"
  using assms by (simp add: main_def bind_io_def lift_io_def)

lemma main_cpu_threshold:
  assumes "unused_connections a w [] = (Return c1, evs1)"
    and "metric_state c1 (PStr (warn_conns a)) (PStr (crit_conns a)) = Inr st1"
    and "free_storage a w evs1 = (Return c2, evs2)"
    and "disk_state c2 (warn_disk a) (crit_disk a) = Inr st2"
    and "disk_shown (percent a) c2 = Inr shown"
    and "cpu_used a w evs2 = (Return c3, evs3)"
    and "metric_state c3 (PStr (warn_cpu a)) (PStr (crit_cpu a)) = Inl e"
  shows "main fmt a w = (Raise e, evs3)"
  using assms by (simp add: main_def bind_io_def lift_io_def)

lemma grows_return: "grows (return_io x)"
  by (simp add: grows_def return_io_def)

lemma grows_raise: "grows (raise_io e)"
  by (simp add: grows_def raise_io_def)

lemma grows_lift: "grows (lift_io r)"
  by (cases r) (simp_all add: grows_def lift_io_def)

lemma grows_call: "grows (call ev r)"
  by (cases r) (simp_all add: grows_def call_def)

lemma grows_report: "grows (report fmt states)"
  by (simp add: grows_def report_def)

lemma grows_bind:
  assumes "grows m" and "\<And>x. grows (f x)"
  shows "grows (bind_io m f)"
  unfolding grows_def
proof
  fix evs
  from assms(1) obtain t where t: "snd (m evs) = evs @ t" unfolding grows_def by blast
  obtain r evs' where r: "m evs = (r, evs')" by (cases "m evs")
  with t have e: "evs' = evs @ t" by simp
  show "\<exists>t. snd (bind_io m f evs) = evs @ t"
  proof (cases r)
    case (Return x)
    from assms(2) obtain t' where "snd (f x evs') = evs' @ t'" unfolding grows_def by blast
    with r Return e show ?thesis by (simp add: bind_io_def)
  next
    case (Raise x)
    with r e show ?thesis by (simp add: bind_io_def)
  next
    case (SysExit c msg)
    with r e show ?thesis by (simp add: bind_io_def)
  qed
qed

lemma get_statistics_grows: "\<exists>t. snd (get_statistics w self offset evs) = evs @ t"
proof (induction w self offset evs rule: get_statistics.induct)
  case (1 w self offset evs)
  show ?case
  proof (cases "offset > 20")
    case True
    then show ?thesis by (subst get_statistics.simps) simp
  next
    case off: False
    show ?thesis
    proof (cases "get_dimensions self")
      case (Inl e)
      with off show ?thesis by (subst get_statistics.simps) simp
    next
      case dims: (Inr d)
      show ?thesis
      proof (cases "cw_get_statistics w (name self) offset")
        case (Inl e)
        with off dims show ?thesis
          by (subst get_statistics.simps) (cases e, simp_all)
      next
        case dp: (Inr datapoints)
        show ?thesis
        proof (cases "datapoints = [] \<and> last_state self")
          case True
          from "1.IH" [OF off dims dp True] obtain t
            where "snd (get_statistics w self (offset + 1)
                        (evs @ [GetStatistics (name self) offset]))
                   = (evs @ [GetStatistics (name self) offset]) @ t"
            by blast
          with off dims dp True show ?thesis
            by (subst get_statistics.simps) simp
        next
          case False
          with off dims dp show ?thesis
            by (subst get_statistics.simps) auto
        qed
      qed
    qed
  qed
qed

lemma grows_get_current_value: "grows (get_current_value w self)"
  unfolding get_current_value_def
proof (rule grows_bind)
  show "grows (get_statistics w self 0)"
    unfolding grows_def using get_statistics_grows by blast
  show "grows (case x of None \<Rightarrow> raise_io TypeError
               | Some datapoints \<Rightarrow>
                   if datapoints = [] then return_io None
                   else return_io (Some (last datapoints)))" for x
    by (cases x) (simp_all add: grows_raise grows_return)
qed

lemma grows_unused_rest:
  "grows (\<lambda>evs. bind_io (lift_io (max_connections inst)) (\<lambda>mc.
     bind_io (get_current_value w m) (\<lambda>cur.
       case cur of
         None \<Rightarrow> raise_io TypeError
       | Some c \<Rightarrow>
           if p then
             (if mc = 0 then raise_io ZeroDivisionError
              else return_io (Some ((of_int mc - c) / of_int mc * 100)))
           else return_io (Some (of_int mc - c)))) evs)"
  by (intro grows_bind [unfolded atomize_all [symmetric]] grows_lift grows_get_current_value)
     (auto simp: grows_raise grows_return split: option.splits)

lemma first_bind:
  assumes "snd (m []) = ev # t" and "\<And>x. grows (f x)"
  shows "\<exists>t'. snd (bind_io m f []) = ev # t'"
proof -
  obtain r evs' where r: "m [] = (r, evs')" by (cases "m []")
  with assms(1) have e: "evs' = ev # t" by simp
  show ?thesis
  proof (cases r)
    case (Return x)
    from assms(2) obtain t' where "snd (f x evs') = evs' @ t'" unfolding grows_def by blast
    with r Return e show ?thesis by (simp add: bind_io_def)
  next
    case (Raise x)
    with r e show ?thesis by (simp add: bind_io_def)
  next
    case (SysExit c msg)
    with r e show ?thesis by (simp add: bind_io_def)
  qed
qed

lemma grows_DbInstance: "grows (DbInstance w i)"
  unfolding DbInstance_def
  by (intro grows_bind grows_call grows_return)

lemma DbInstance_first: "\<exists>t. snd (DbInstance w i []) = DescribeDbInstances i # t"
  unfolding DbInstance_def
proof (rule first_bind)
  show "snd (call (DescribeDbInstances i) (rds_describe_db_instances w i) [])
        = DescribeDbInstances i # []"
    by (cases "rds_describe_db_instances w i") (simp_all add: call_def)
  show "grows (bind_io (call (DescribeDbParameters (DBParameterGroupName d))
                 (rds_describe_db_parameters w (DBParameterGroupName d)))
          (\<lambda>ps. bind_io (call (DescribeInstanceTypes (ec2_class_name (DBInstanceClass d)))
                   (ec2_describe_instance_types w (ec2_class_name (DBInstanceClass d))))
             (\<lambda>cls. return_io \<lparr>data = d, parameters = ps, instance_class = cls\<rparr>)))" for d
    by (intro grows_bind grows_call grows_return)
qed

lemma unused_connections_first:
  "\<exists>t. snd (unused_connections a w []) = DescribeDbInstances (arg_instance a) # t"
proof -
  obtain t where t: "snd (DbInstance w (arg_instance a) []) = DescribeDbInstances (arg_instance a) # t"
    using DbInstance_first by blast
  show ?thesis
    unfolding unused_connections_def
    by (rule first_bind [where m = "DbInstance w (arg_instance a)", OF t])
       (rule grows_unused_rest)
qed

lemma grows_free_storage: "grows (free_storage a w)"
  unfolding free_storage_def
  by (intro grows_bind grows_DbInstance grows_get_current_value)
     (auto simp: grows_raise grows_return split: option.splits)

lemma grows_cpu_used: "grows (cpu_used a w)"
  unfolding cpu_used_def by (rule grows_get_current_value)

lemma main_first_event:
  "\<exists>t. snd (main fmt a w) = DescribeDbInstances (arg_instance a) # t"
proof -
  obtain t where t: "snd (unused_connections a w []) = DescribeDbInstances (arg_instance a) # t"
    using unused_connections_first by blast
  show ?thesis
    unfolding main_def
    by (rule first_bind [where m = "unused_connections a w", OF t])
       (intro grows_bind grows_lift grows_free_storage grows_cpu_used grows_report)
qed

text \<open>
  Claim C6, as stated, fails: with the critical threshold \<open>abc\<close> for the connections
  the run does not end as UNKNOWN with an empty trace. The metadata is fetched and the
  connections are sampled first; then \<open>float\<close> raises \<open>ValueError\<close>, which nobody
  catches.
\<close>

theorem malformed_threshold_not_checked_first:
  "main (\<lambda>v. []) (example_args\<lparr>crit_conns := ''abc''\<rparr>) example_aws
   = (Raise ValueError,
      [DescribeDbInstances ''db1'', DescribeDbParameters ''default.mysql8.0'',
       DescribeInstanceTypes ''t3.micro'', GetStatistics ''DatabaseConnections'' 0])"
  by code_simp

text \<open>
  Claim C6, amended. Nothing validates a threshold before the network is used: every run
  of \<open>main\<close> begins with the metadata lookup, and a threshold is parsed only after its own
  metric has been sampled, and only when that sample is present. The failure then ends
  \<open>main\<close> with the exception of the parse, uncaught, and the trace holds a request for
  that metric; a threshold whose metric has no sample is never parsed. For the
  connections and the CPU the critical string is parsed first and the warning string
  only when the critical range accepts the value; for the disk both strings go through
  \<open>expand_unit\<close>, the warning one first, before either range is tested. Whether a string
  fails does not depend on the value it is compared with. The exception is
  \<open>ValueError\<close> from \<open>expand_unit\<close> and from a non-empty range string, and \<open>IndexError\<close>
  from an empty range string.
\<close>

theorem malformed_threshold_after_sampling:
  "(\<exists>t. snd (main fmt a w) = DescribeDbInstances (arg_instance a) # t)
   \<and> (unused_connections a w [] = (Return (Some v1), evs1)
        \<and> metric_state (Some v1) (PStr (warn_conns a)) (PStr (crit_conns a)) = Inl e
      \<longrightarrow> main fmt a w = (Raise e, evs1)
          \<and> (\<exists>k. GetStatistics ''DatabaseConnections'' k \<in> set evs1))
   \<and> (unused_connections a w [] = (Return c1, evs1)
        \<and> metric_state c1 (PStr (warn_conns a)) (PStr (crit_conns a)) = Inr st1
        \<and> free_storage a w evs1 = (Return (Some v2), evs2)
        \<and> disk_state (Some v2) (warn_disk a) (crit_disk a) = Inl e
      \<longrightarrow> main fmt a w = (Raise e, evs2)
          \<and> (\<exists>k. GetStatistics ''FreeStorageSpace'' k \<in> set evs2))
   \<and> (unused_connections a w [] = (Return c1, evs1)
        \<and> metric_state c1 (PStr (warn_conns a)) (PStr (crit_conns a)) = Inr st1
        \<and> free_storage a w evs1 = (Return c2, evs2)
        \<and> disk_state c2 (warn_disk a) (crit_disk a) = Inr st2
        \<and> disk_shown (percent a) c2 = Inr shown
        \<and> cpu_used a w evs2 = (Return (Some v3), evs3)
        \<and> metric_state (Some v3) (PStr (warn_cpu a)) (PStr (crit_cpu a)) = Inl e
      \<longrightarrow> main fmt a w = (Raise e, evs3)
          \<and> (\<exists>k. GetStatistics ''CPUUtilization'' k \<in> set evs3))
   \<and> ((metric_state (Some x) (PStr wn) (PStr cr) = Inl e)
        = (compare_range x (PStr cr) = Inl e
           \<or> (compare_range x (PStr cr) = Inr True \<and> compare_range x (PStr wn) = Inl e)))
   \<and> ((disk_state (Some x) dw dc = Inl e)
        = (expand_unit dw = Inl e
           \<or> (\<exists>wv. expand_unit dw = Inr wv
                \<and> (expand_unit dc = Inl e
                    \<or> (\<exists>cv. expand_unit dc = Inr cv \<and> compare x wv cv = Inl e)))))
   \<and> (compare_range x win = Inl e \<longrightarrow> compare_range x' win = Inl e)
   \<and> (compare_range x (PStr s) = Inl e
        \<longrightarrow> (s = [] \<and> e = IndexError) \<or> (s \<noteq> [] \<and> e = ValueError))
   \<and> (expand_unit s = Inl e \<longrightarrow> e = ValueError)
   \<and> metric_state None (PStr wn) (PStr cr) = Inr STATE_UNKNOWN
   \<and> disk_state None dw dc = Inr STATE_UNKNOWN"
proof -
  have first: "\<exists>t. snd (main fmt a w) = DescribeDbInstances (arg_instance a) # t"
    by (rule main_first_event)
  have conns: "unused_connections a w [] = (Return (Some v1), evs1)
        \<and> metric_state (Some v1) (PStr (warn_conns a)) (PStr (crit_conns a)) = Inl e
      \<longrightarrow> main fmt a w = (Raise e, evs1)
          \<and> (\<exists>k. GetStatistics ''DatabaseConnections'' k \<in> set evs1)"
  proof (intro impI conjI)
    assume h: "unused_connections a w [] = (Return (Some v1), evs1)
        \<and> metric_state (Some v1) (PStr (warn_conns a)) (PStr (crit_conns a)) = Inl e"
    then have "compare v1 (PStr (warn_conns a)) (PStr (crit_conns a)) = Inl e"
      by (simp add: metric_state_def)
    with h show "main fmt a w = (Raise e, evs1)"
      using main_connections_threshold by blast
    from h show "\<exists>k. GetStatistics ''DatabaseConnections'' k \<in> set evs1"
      using unused_connections_sampled by blast
  qed
  have disk: "unused_connections a w [] = (Return c1, evs1)
        \<and> metric_state c1 (PStr (warn_conns a)) (PStr (crit_conns a)) = Inr st1
        \<and> free_storage a w evs1 = (Return (Some v2), evs2)
        \<and> disk_state (Some v2) (warn_disk a) (crit_disk a) = Inl e
      \<longrightarrow> main fmt a w = (Raise e, evs2)
          \<and> (\<exists>k. GetStatistics ''FreeStorageSpace'' k \<in> set evs2)"
  proof (intro impI conjI)
    assume h: "unused_connections a w [] = (Return c1, evs1)
        \<and> metric_state c1 (PStr (warn_conns a)) (PStr (crit_conns a)) = Inr st1
        \<and> free_storage a w evs1 = (Return (Some v2), evs2)
        \<and> disk_state (Some v2) (warn_disk a) (crit_disk a) = Inl e"
    then show "main fmt a w = (Raise e, evs2)"
      by (intro main_disk_threshold [of a w c1 evs1 st1 "Some v2" evs2 e]) blast+
    from h show "\<exists>k. GetStatistics ''FreeStorageSpace'' k \<in> set evs2"
      using free_storage_sampled by blast
  qed
  have cpu: "unused_connections a w [] = (Return c1, evs1)
        \<and> metric_state c1 (PStr (warn_conns a)) (PStr (crit_conns a)) = Inr st1
        \<and> free_storage a w evs1 = (Return c2, evs2)
        \<and> disk_state c2 (warn_disk a) (crit_disk a) = Inr st2
        \<and> disk_shown (percent a) c2 = Inr shown
        \<and> cpu_used a w evs2 = (Return (Some v3), evs3)
        \<and> metric_state (Some v3) (PStr (warn_cpu a)) (PStr (crit_cpu a)) = Inl e
      \<longrightarrow> main fmt a w = (Raise e, evs3)
          \<and> (\<exists>k. GetStatistics ''CPUUtilization'' k \<in> set evs3)"
  proof (intro impI conjI)
    assume h: "unused_connections a w [] = (Return c1, evs1)
        \<and> metric_state c1 (PStr (warn_conns a)) (PStr (crit_conns a)) = Inr st1
        \<and> free_storage a w evs1 = (Return c2, evs2)
        \<and> disk_state c2 (warn_disk a) (crit_disk a) = Inr st2
        \<and> disk_shown (percent a) c2 = Inr shown
        \<and> cpu_used a w evs2 = (Return (Some v3), evs3)
        \<and> metric_state (Some v3) (PStr (warn_cpu a)) (PStr (crit_cpu a)) = Inl e"
    then show "main fmt a w = (Raise e, evs3)"
      by (intro main_cpu_threshold [of a w c1 evs1 st1 c2 evs2 st2 shown "Some v3" evs3 e]) blast+
    from h show "\<exists>k. GetStatistics ''CPUUtilization'' k \<in> set evs3"
      using cpu_used_sampled by blast
  qed
  have ms: "(metric_state (Some x) (PStr wn) (PStr cr) = Inl e)
        = (compare_range x (PStr cr) = Inl e
           \<or> (compare_range x (PStr cr) = Inr True \<and> compare_range x (PStr wn) = Inl e))"
    by (auto simp: metric_state_def compare_def split: sum.splits bool.splits)
  have ds: "(disk_state (Some x) dw dc = Inl e)
        = (expand_unit dw = Inl e
           \<or> (\<exists>wv. expand_unit dw = Inr wv
                \<and> (expand_unit dc = Inl e
                    \<or> (\<exists>cv. expand_unit dc = Inr cv \<and> compare x wv cv = Inl e))))"
    by (cases "expand_unit dw"; cases "expand_unit dc") (simp_all add: disk_state_def)
  have indep: "compare_range x win = Inl e \<longrightarrow> compare_range x' win = Inl e"
    using compare_range_error_any_value by blast
  have kind: "compare_range x (PStr s) = Inl e
        \<longrightarrow> (s = [] \<and> e = IndexError) \<or> (s \<noteq> [] \<and> e = ValueError)"
    using compare_range_error_kind by blast
  have eu: "expand_unit s = Inl e \<longrightarrow> e = ValueError"
    using expand_unit_error by blast
  have n1: "metric_state None (PStr wn) (PStr cr) = Inr STATE_UNKNOWN"
    by (simp add: metric_state_def)
  have n2: "disk_state None dw dc = Inr STATE_UNKNOWN"
    by (simp add: disk_state_def)
  from first conns disk cpu ms ds indep kind eu n1 n2 show ?thesis
    by (intro conjI)
qed

theorem malformed_threshold_after_sampling_witness:
  "main (\<lambda>v. []) (example_args\<lparr>crit_conns := ''5:x''\<rparr>) example_aws
   = (Raise ValueError,
      [DescribeDbInstances ''db1'', DescribeDbParameters ''default.mysql8.0'',
       DescribeInstanceTypes ''t3.micro'', GetStatistics ''DatabaseConnections'' 0])
   \<and> main (\<lambda>v. []) (example_args\<lparr>warn_disk := ''1.5Gi'', crit_disk := ''16Gi:''\<rparr>) example_aws
   = (Raise ValueError,
      [DescribeDbInstances ''db1'', DescribeDbParameters ''default.mysql8.0'',
       DescribeInstanceTypes ''t3.micro'', GetStatistics ''DatabaseConnections'' 0,
       DescribeDbInstances ''db1'', DescribeDbParameters ''default.mysql8.0'',
       DescribeInstanceTypes ''t3.micro'', GetStatistics ''FreeStorageSpace'' 0])
   \<and> main (\<lambda>v. []) (example_args\<lparr>crit_cpu := []\<rparr>) example_aws
   = (Raise IndexError,
      [DescribeDbInstances ''db1'', DescribeDbParameters ''default.mysql8.0'',
       DescribeInstanceTypes ''t3.micro'', GetStatistics ''DatabaseConnections'' 0,
       DescribeDbInstances ''db1'', DescribeDbParameters ''default.mysql8.0'',
       DescribeInstanceTypes ''t3.micro'', GetStatistics ''FreeStorageSpace'' 0,
       GetStatistics ''CPUUtilization'' 0])"
proof -
  let ?a1 = "example_args\<lparr>crit_conns := ''5:x''\<rparr>"
  let ?a2 = "example_args\<lparr>warn_disk := ''1.5Gi'', crit_disk := ''16Gi:''\<rparr>"
  let ?a3 = "example_args\<lparr>crit_cpu := []\<rparr>"
  let ?meta = "[DescribeDbInstances ''db1'', DescribeDbParameters ''default.mysql8.0'',
                DescribeInstanceTypes ''t3.micro'']"
  let ?e1 = "?meta @ [GetStatistics ''DatabaseConnections'' 0]"
  let ?e2 = "?e1 @ ?meta @ [GetStatistics ''FreeStorageSpace'' 0]"
  let ?e3 = "?e2 @ [GetStatistics ''CPUUtilization'' 0]"
  have u1: "unused_connections ?a1 example_aws [] = (Return (Some 82), ?e1)" by code_simp
  have m1: "metric_state (Some 82) (PStr (warn_conns ?a1)) (PStr (crit_conns ?a1))
            = Inl ValueError" by code_simp
  have r1: "main (\<lambda>v. []) ?a1 example_aws = (Raise ValueError, ?e1)"
    using malformed_threshold_after_sampling [of "\<lambda>v. []" ?a1 example_aws 82 ?e1 ValueError,
        THEN conjunct2, THEN conjunct1, THEN mp, OF conjI [OF u1 m1], THEN conjunct1] .
  have u2: "unused_connections ?a2 example_aws [] = (Return (Some 82), ?e1)" by code_simp
  have m2: "metric_state (Some 82) (PStr (warn_conns ?a2)) (PStr (crit_conns ?a2))
            = Inr STATE_OK" by code_simp
  have f2: "free_storage ?a2 example_aws ?e1 = (Return (Some 8589934592), ?e2)" by code_simp
  have d2: "disk_state (Some 8589934592) (warn_disk ?a2) (crit_disk ?a2) = Inl ValueError"
    by code_simp
  have r2: "main (\<lambda>v. []) ?a2 example_aws = (Raise ValueError, ?e2)"
    using malformed_threshold_after_sampling [of "\<lambda>v. []" ?a2 example_aws _ ?e1 ValueError
          "Some 82" STATE_OK 8589934592 ?e2,
        THEN conjunct2, THEN conjunct2, THEN conjunct1, THEN mp,
        OF conjI [OF u2 conjI [OF m2 conjI [OF f2 d2]]], THEN conjunct1] .
  have u3: "unused_connections ?a3 example_aws [] = (Return (Some 82), ?e1)" by code_simp
  have m3: "metric_state (Some 82) (PStr (warn_conns ?a3)) (PStr (crit_conns ?a3))
            = Inr STATE_OK" by code_simp
  have f3: "free_storage ?a3 example_aws ?e1 = (Return (Some 8589934592), ?e2)" by code_simp
  have d3: "disk_state (Some 8589934592) (warn_disk ?a3) (crit_disk ?a3) = Inr STATE_OK"
    by code_simp
  have s3: "disk_shown (percent ?a3) (Some 8589934592) = Inr (Some 8192)" by code_simp
  have c3: "cpu_used ?a3 example_aws ?e2 = (Return (Some 3), ?e3)" by code_simp
  have k3: "metric_state (Some 3) (PStr (warn_cpu ?a3)) (PStr (crit_cpu ?a3)) = Inl IndexError"
    by code_simp
  have r3: "main (\<lambda>v. []) ?a3 example_aws = (Raise IndexError, ?e3)"
    using malformed_threshold_after_sampling [of "\<lambda>v. []" ?a3 example_aws _ ?e1 IndexError
          "Some 82" STATE_OK _ ?e2 "Some 8589934592" STATE_OK "Some 8192" 3 ?e3,
        THEN conjunct2, THEN conjunct2, THEN conjunct2, THEN conjunct1, THEN mp,
        OF conjI [OF u3 conjI [OF m3 conjI [OF f3 conjI [OF d3 conjI [OF s3 conjI [OF c3 k3]]]]]],
        THEN conjunct1] .
  from r1 r2 r3 show ?thesis by simp
qed

subsection \<open>Absent samples\<close>

text \<open>
  Claim C2. The state of an absent sample is UNKNOWN whatever the thresholds are, and
  for the CPU metric the check goes on: the item takes part in the report with the
  state UNKNOWN. For the two other metrics the code diverges from the claim: an absent
  sample of the connections is subtracted from \<open>max_connections\<close>, an absent sample of
  the free storage is divided (by the allocated storage, or by 1024 for the report), and
  either raises \<open>TypeError\<close>, which ends the check before any state is reported.
\<close>

theorem absent_sample:
  "metric_state None warn crit = Inr STATE_UNKNOWN
   \<and> disk_state None dwarn dcrit = Inr STATE_UNKNOWN
   \<and> (DbInstance w (arg_instance a) [] = (Return inst, evs1)
        \<and> max_connections inst = Inr mc
        \<and> get_current_value w (rds_metric a ''DatabaseConnections'' ''Minimum'') evs1
            = (Return None, evs2)
      \<longrightarrow> main fmt a w = (Raise TypeError, evs2))
   \<and> (unused_connections a w [] = (Return v1, evs1)
        \<and> metric_state v1 (PStr (warn_conns a)) (PStr (crit_conns a)) = Inr st1
        \<and> DbInstance w (arg_instance a) evs1 = (Return inst, evs2)
        \<and> get_current_value w (rds_metric a ''FreeStorageSpace'' ''Minimum'') evs2
            = (Return None, evs3)
      \<longrightarrow> main fmt a w = (Raise TypeError, evs3))
   \<and> (unused_connections a w [] = (Return v1, evs1)
        \<and> metric_state v1 (PStr (warn_conns a)) (PStr (crit_conns a)) = Inr st1
        \<and> free_storage a w evs1 = (Return v2, evs2)
        \<and> disk_state v2 (warn_disk a) (crit_disk a) = Inr st2
        \<and> disk_shown (percent a) v2 = Inr shown
        \<and> cpu_used a w evs2 = (Return None, evs3)
      \<longrightarrow> main fmt a w
          = report fmt
              [\<lparr>item_name = ''free_connections'', item_state = st1, item_value = v1,
                item_unit = (if percent a then ''%'' else [])\<rparr>,
               \<lparr>item_name = ''free_storage'', item_state = st2, item_value = shown,
                item_unit = (if percent a then ''%'' else '' MiB'')\<rparr>,
               \<lparr>item_name = ''cpu_used'', item_state = STATE_UNKNOWN, item_value = None,
                item_unit = ''%''\<rparr>] evs3)"
proof (intro conjI impI)
  show "metric_state None warn crit = Inr STATE_UNKNOWN" by (simp add: metric_state_def)
  show "disk_state None dwarn dcrit = Inr STATE_UNKNOWN" by (simp add: disk_state_def)
next
  assume "DbInstance w (arg_instance a) [] = (Return inst, evs1)
        \<and> max_connections inst = Inr mc
        \<and> get_current_value w (rds_metric a ''DatabaseConnections'' ''Minimum'') evs1
            = (Return None, evs2)"
  then have "unused_connections a w [] = (Raise TypeError, evs2)"
    by (simp add: unused_connections_def bind_io_def lift_io_def raise_io_def)
  then show "main fmt a w = (Raise TypeError, evs2)"
    by (simp add: main_def bind_io_def)
next
  assume h: "unused_connections a w [] = (Return v1, evs1)
        \<and> metric_state v1 (PStr (warn_conns a)) (PStr (crit_conns a)) = Inr st1
        \<and> DbInstance w (arg_instance a) evs1 = (Return inst, evs2)
        \<and> get_current_value w (rds_metric a ''FreeStorageSpace'' ''Minimum'') evs2
            = (Return None, evs3)"
  show "main fmt a w = (Raise TypeError, evs3)"
  proof (cases "percent a")
    case True
    with h have "free_storage a w evs1 = (Raise TypeError, evs3)"
      by (simp add: free_storage_def bind_io_def raise_io_def)
    with h show ?thesis by (simp add: main_def bind_io_def lift_io_def)
  next
    case False
    with h have "free_storage a w evs1 = (Return None, evs3)"
      by (simp add: free_storage_def bind_io_def return_io_def)
    with h False show ?thesis
      by (simp add: main_def bind_io_def lift_io_def disk_state_def disk_shown_def)
  qed
next
  assume "unused_connections a w [] = (Return v1, evs1)
        \<and> metric_state v1 (PStr (warn_conns a)) (PStr (crit_conns a)) = Inr st1
        \<and> free_storage a w evs1 = (Return v2, evs2)
        \<and> disk_state v2 (warn_disk a) (crit_disk a) = Inr st2
        \<and> disk_shown (percent a) v2 = Inr shown
        \<and> cpu_used a w evs2 = (Return None, evs3)"
  then show "main fmt a w
          = report fmt
              [\<lparr>item_name = ''free_connections'', item_state = st1, item_value = v1,
                item_unit = (if percent a then ''%'' else [])\<rparr>,
               \<lparr>item_name = ''free_storage'', item_state = st2, item_value = shown,
                item_unit = (if percent a then ''%'' else '' MiB'')\<rparr>,
               \<lparr>item_name = ''cpu_used'', item_state = STATE_UNKNOWN, item_value = None,
                item_unit = ''%''\<rparr>] evs3"
    by (simp add: main_def bind_io_def lift_io_def metric_state_def)
qed

theorem absent_sample_witness:
  "main (\<lambda>v. []) example_args
     (example_aws\<lparr>cw_get_statistics :=
        (\<lambda>m k. if m = ''DatabaseConnections'' then Inr [] else Inr [3])\<rparr>)
   = (Raise TypeError,
      [DescribeDbInstances ''db1'', DescribeDbParameters ''default.mysql8.0'',
       DescribeInstanceTypes ''t3.micro'', GetStatistics ''DatabaseConnections'' 0])
   \<and> main (\<lambda>v. []) example_args
     (example_aws\<lparr>cw_get_statistics :=
        (\<lambda>m k. if m = ''CPUUtilization'' then Inr []
               else Inr [if m = ''FreeStorageSpace'' then 8589934592 else 3])\<rparr>)
   = (SysExit STATE_UNKNOWN ''UNKNOWN: free_connections:, free_storage: MiB, cpu_used:None%'',
      [DescribeDbInstances ''db1'', DescribeDbParameters ''default.mysql8.0'',
       DescribeInstanceTypes ''t3.micro'', GetStatistics ''DatabaseConnections'' 0,
       DescribeDbInstances ''db1'', DescribeDbParameters ''default.mysql8.0'',
       DescribeInstanceTypes ''t3.micro'', GetStatistics ''FreeStorageSpace'' 0,
       GetStatistics ''CPUUtilization'' 0])"
proof -
  let ?w1 = "example_aws\<lparr>cw_get_statistics :=
        (\<lambda>m k. if m = ''DatabaseConnections'' then Inr [] else Inr [3])\<rparr>"
  let ?w2 = "example_aws\<lparr>cw_get_statistics :=
        (\<lambda>m k. if m = ''CPUUtilization'' then Inr []
               else Inr [if m = ''FreeStorageSpace'' then 8589934592 else 3])\<rparr>"
  let ?inst = "\<lparr>data = \<lparr>DBParameterGroupName = ''default.mysql8.0'',
                              DBInstanceClass = ''db.t3.micro'', AllocatedStorage = 20\<rparr>,
                     parameters = (\<lambda>k. if k = ''max_connections''
                                        then Some ''{DBInstanceClassMemory/12582880}'' else None),
                     instance_class = 1024\<rparr>"
  let ?meta = "[DescribeDbInstances ''db1'', DescribeDbParameters ''default.mysql8.0'',
                DescribeInstanceTypes ''t3.micro'']"
  let ?e1 = "?meta @ [GetStatistics ''DatabaseConnections'' 0]"
  let ?e2 = "?e1 @ ?meta @ [GetStatistics ''FreeStorageSpace'' 0]"
  let ?e3 = "?e2 @ [GetStatistics ''CPUUtilization'' 0]"
  have i: "arg_instance example_args = ''db1''" by (simp add: example_args_def)
  have d: "DbInstance ?w1 (arg_instance example_args) [] = (Return ?inst, ?meta)"
    unfolding i using example_DbInstance [of ?w1 "[]"] by simp
  have g: "get_current_value ?w1 (rds_metric example_args ''DatabaseConnections'' ''Minimum'') ?meta
           = (Return None, ?e1)"
    by code_simp
  have a: "main (\<lambda>v. []) example_args ?w1 = (Raise TypeError, ?e1)"
    using absent_sample [THEN conjunct2, THEN conjunct2, THEN conjunct1, THEN mp,
        OF conjI [OF d conjI [OF example_max_connections g]]] .
  have u: "unused_connections example_args ?w2 [] = (Return (Some 82), ?e1)" by code_simp
  have s1: "metric_state (Some 82) (PStr (warn_conns example_args)) (PStr (crit_conns example_args))
            = Inr STATE_OK" by code_simp
  have f: "free_storage example_args ?w2 ?e1 = (Return (Some 8589934592), ?e2)" by code_simp
  have s2: "disk_state (Some 8589934592) (warn_disk example_args) (crit_disk example_args)
            = Inr STATE_OK" by code_simp
  have sh: "disk_shown (percent example_args) (Some 8589934592) = Inr (Some 8192)" by code_simp
  have c: "cpu_used example_args ?w2 ?e2 = (Return None, ?e3)" by code_simp
  have p: "percent example_args = False" by (simp add: example_args_def)
  note t = absent_sample [THEN conjunct2, THEN conjunct2, THEN conjunct2, THEN conjunct2,
      THEN mp, OF conjI [OF u conjI [OF s1 conjI [OF f conjI [OF s2 conjI [OF sh c]]]]],
      of "\<lambda>v. []"]
  have r: "report (\<lambda>v. [])
              [\<lparr>item_name = ''free_connections'', item_state = STATE_OK, item_value = Some 82,
                item_unit = (if False then ''%'' else [])\<rparr>,
               \<lparr>item_name = ''free_storage'', item_state = STATE_OK, item_value = Some 8192,
                item_unit = (if False then ''%'' else '' MiB'')\<rparr>,
               \<lparr>item_name = ''cpu_used'', item_state = STATE_UNKNOWN, item_value = None,
                item_unit = ''%''\<rparr>] ?e3
           = (SysExit STATE_UNKNOWN ''UNKNOWN: free_connections:, free_storage: MiB, cpu_used:None%'',
              ?e3)"
    by code_simp
  have b: "main (\<lambda>v. []) example_args ?w2
           = (SysExit STATE_UNKNOWN ''UNKNOWN: free_connections:, free_storage: MiB, cpu_used:None%'',
              ?e3)"
    using t unfolding p r .
  from a b show ?thesis by simp
qed

end
